theory Spec2Isabelle
  imports Main "HOL-Library.Multiset"
begin

section \<open>JavaScript values and string helpers\<close>

text \<open>
  A record of a snapshot is a flat JSON object. Each field is modelled at its kind
  (string, number, boolean) and may be absent (\<open>Undefined\<close>) or \<open>null\<close>.
  Numbers are the integer amounts and counts of the snapshots. Strings are
  \<open>char list\<close>; \<open>toLowerCase\<close> lowers the ASCII letters and \<open>trim\<close> strips the
  ASCII white space.
\<close>

datatype 'a js = Undefined | Null | Val 'a

datatype error = TypeError

fun truthyStr :: "string js \<Rightarrow> bool" where
  "truthyStr (Val s) = (s \<noteq> [])"
| "truthyStr Undefined = False"
| "truthyStr Null = False"

fun truthyNum :: "int js \<Rightarrow> bool" where
  "truthyNum (Val n) = (n \<noteq> 0)"
| "truthyNum Undefined = False"
| "truthyNum Null = False"

fun truthyBool :: "bool js \<Rightarrow> bool" where
  "truthyBool (Val b) = b"
| "truthyBool Undefined = False"
| "truthyBool Null = False"

definition lowerChar :: "char \<Rightarrow> char" where
  "lowerChar c =
     (if 65 \<le> (of_char c :: nat) \<and> (of_char c :: nat) \<le> 90
      then char_of ((of_char c :: nat) + 32) else c)"

definition toLowerCase :: "string \<Rightarrow> string" where
  "toLowerCase s = map lowerChar s"

fun startsWith :: "string \<Rightarrow> string \<Rightarrow> bool" where
  "startsWith s [] = True"
| "startsWith [] (t # ts) = False"
| "startsWith (c # cs) (t # ts) = (c = t \<and> startsWith cs ts)"

text \<open>\<open>s.includes(t)\<close>: \<open>t\<close> occurs in \<open>s\<close> as a contiguous substring.\<close>

fun str_includes :: "string \<Rightarrow> string \<Rightarrow> bool" where
  "str_includes [] t = (t = [])"
| "str_includes (c # cs) t = (startsWith (c # cs) t \<or> str_includes cs t)"

definition isSpace :: "char \<Rightarrow> bool" where
  "isSpace c = (c = CHR '' '' \<or> c = CHR 0x09 \<or> c = CHR 0x0A \<or> c = CHR 0x0B
                \<or> c = CHR 0x0C \<or> c = CHR 0x0D)"

definition trim :: "string \<Rightarrow> string" where
  "trim s = rev (dropWhile isSpace (rev (dropWhile isSpace s)))"

text \<open>
  The value of every input element of the page, by element id. The HTML is not part of
  the sources; every element the scripts read is taken to exist.
\<close>

type_synonym dom = "string \<Rightarrow> string"

text \<open>\<open>Array.prototype.filter\<close> with a callback that may throw: the first throw ends it.\<close>

fun filterE :: "('a \<Rightarrow> error + bool) \<Rightarrow> 'a list \<Rightarrow> error + 'a list" where
  "filterE p [] = Inr []"
| "filterE p (x # xs) =
     (case p x of
        Inl e \<Rightarrow> Inl e
      | Inr b \<Rightarrow> (case filterE p xs of
                    Inl e \<Rightarrow> Inl e
                  | Inr ys \<Rightarrow> Inr (if b then x # ys else ys)))"

text \<open>
  \<open>xs.slice(start, end)\<close> for integer arguments: a negative index counts from the end,
  and both are clamped to the array.
\<close>

definition relIndex :: "int \<Rightarrow> int \<Rightarrow> nat" where
  "relIndex len i = (if i < 0 then nat (max (len + i) 0) else nat (min i len))"

definition slice :: "'a list \<Rightarrow> int \<Rightarrow> int \<Rightarrow> 'a list" where
  "slice xs start end' =
     (let len = int (length xs);
          k = relIndex len start;
          final = relIndex len end'
      in take (final - k) (drop k xs))"

text \<open>\<open>Math.ceil(n / d)\<close> for an integer \<open>n\<close> and a positive integer \<open>d\<close>.\<close>

definition ceilDiv :: "int \<Rightarrow> int \<Rightarrow> int" where
  "ceilDiv n d = - ((- n) div d)"


section \<open>Challenges (the challenges tab)\<close>

record challenge =
  ch_id :: "string js"
  ch_title :: "string js"
  ch_agency :: "string js"
  ch_description :: "string js"
  ch_status :: "string js"
  ch_challenge_type :: "string js"
  ch_prize_total :: "int js"
  ch_submission_deadline :: "string js"

record challengeState =
  challengesData :: "challenge list"
  filteredChallenges :: "challenge list"
  currentChallengePage :: int
  challengeDom :: dom

definition challengeItemsPerPage :: int where
  "challengeItemsPerPage = 20"

text \<open>
  \<open>matchesSearch\<close> of \<open>filterChallenges\<close>. \<open>challenge.title.toLowerCase()\<close> and
  \<open>challenge.agency.toLowerCase()\<close> are unguarded and throw on a missing field; the
  description is guarded. The \<open>||\<close> chain stops at the first true operand.
\<close>

definition chMatchesSearch :: "string \<Rightarrow> challenge \<Rightarrow> error + bool" where
  "chMatchesSearch searchTerm c =
     (if searchTerm = [] then Inr True
      else case ch_title c of
             Val t \<Rightarrow>
               if str_includes (toLowerCase t) searchTerm then Inr True
               else (case ch_agency c of
                       Val a \<Rightarrow>
                         if str_includes (toLowerCase a) searchTerm then Inr True
                         else (case ch_description c of
                                 Val d \<Rightarrow> Inr (d \<noteq> [] \<and> str_includes (toLowerCase d) searchTerm)
                               | Undefined \<Rightarrow> Inr False
                               | Null \<Rightarrow> Inr False)
                     | Undefined \<Rightarrow> Inl TypeError
                     | Null \<Rightarrow> Inl TypeError)
           | Undefined \<Rightarrow> Inl TypeError
           | Null \<Rightarrow> Inl TypeError)"

text \<open>The \<open>switch\<close> on the prize filter; a value outside the five cases leaves \<open>true\<close>.\<close>

definition prizeSwitch :: "string \<Rightarrow> int \<Rightarrow> bool" where
  "prizeSwitch prizeFilter prize =
     (if prizeFilter = ''under-10k'' then prize < 10000
      else if prizeFilter = ''10k-50k'' then prize \<ge> 10000 \<and> prize < 50000
      else if prizeFilter = ''50k-100k'' then prize \<ge> 50000 \<and> prize < 100000
      else if prizeFilter = ''100k-500k'' then prize \<ge> 100000 \<and> prize < 500000
      else if prizeFilter = ''over-500k'' then prize \<ge> 500000
      else True)"

definition chMatchesPrize :: "string \<Rightarrow> challenge \<Rightarrow> bool" where
  "chMatchesPrize prizeFilter c =
     (case ch_prize_total c of
        Val prize \<Rightarrow> (if prizeFilter \<noteq> [] \<and> prize \<noteq> 0 then prizeSwitch prizeFilter prize else True)
      | Undefined \<Rightarrow> True
      | Null \<Rightarrow> True)"

text \<open>The callback of \<open>challengesData.filter\<close> in \<open>filterChallenges\<close>.\<close>

definition challengeKept ::
  "string \<Rightarrow> string \<Rightarrow> string \<Rightarrow> string \<Rightarrow> string \<Rightarrow> challenge \<Rightarrow> error + bool" where
  "challengeKept searchTerm agencyFilter statusFilter typeFilter prizeFilter c =
     (case chMatchesSearch searchTerm c of
        Inl e \<Rightarrow> Inl e
      | Inr matchesSearch \<Rightarrow>
          Inr (matchesSearch
               \<and> (agencyFilter = [] \<or> ch_agency c = Val agencyFilter)
               \<and> (statusFilter = [] \<or> ch_status c = Val statusFilter)
               \<and> (typeFilter = [] \<or> ch_challenge_type c = Val typeFilter)
               \<and> chMatchesPrize prizeFilter c))"

definition filterChallenges :: "challengeState \<Rightarrow> error + challengeState" where
  "filterChallenges s =
     (let searchTerm = toLowerCase (challengeDom s ''challenge-search-input'');
          agencyFilter = challengeDom s ''challenge-filter-agency'';
          statusFilter = challengeDom s ''challenge-filter-status'';
          typeFilter = challengeDom s ''challenge-filter-type'';
          prizeFilter = challengeDom s ''challenge-filter-prize''
      in case filterE (challengeKept searchTerm agencyFilter statusFilter typeFilter prizeFilter)
                      (challengesData s) of
           Inl e \<Rightarrow> Inl e
         | Inr ys \<Rightarrow> Inr (s\<lparr>filteredChallenges := ys, currentChallengePage := 1\<rparr>))"

text \<open>\<open>changePage\<close> of the challenges tab (exported as \<open>window.changePage\<close>).\<close>

definition changePage :: "int \<Rightarrow> challengeState \<Rightarrow> challengeState" where
  "changePage page s = s\<lparr>currentChallengePage := page\<rparr>"

text \<open>The page window of \<open>updateChallengeTable\<close>.\<close>

definition challengePageItems :: "challengeState \<Rightarrow> challenge list" where
  "challengePageItems s =
     (let startIndex = (currentChallengePage s - 1) * challengeItemsPerPage;
          endIndex = startIndex + challengeItemsPerPage
      in slice (filteredChallenges s) startIndex endIndex)"

definition emptyChallenge :: challenge where
  "emptyChallenge = \<lparr>ch_id = Undefined, ch_title = Undefined, ch_agency = Undefined,
     ch_description = Undefined, ch_status = Undefined, ch_challenge_type = Undefined,
     ch_prize_total = Undefined, ch_submission_deadline = Undefined\<rparr>"


section \<open>Dates\<close>

text \<open>
  \<open>new Date(string)\<close> is a built-in of the platform. The functions below take it as the
  parameter \<open>parse\<close>: the time value in milliseconds, or \<open>None\<close> for an Invalid Date,
  whose time value is NaN. \<open>isoDate\<close> is the part of it that reads \<open>YYYY-MM-DD\<close>
  (UTC midnight of a valid calendar day), the form the snapshots write; it serves
  where a concrete parser is needed.
\<close>

type_synonym dateParser = "string \<Rightarrow> int option"

definition msPerDay :: int where
  "msPerDay = 1000 * 60 * 60 * 24"

definition digitVal :: "char \<Rightarrow> int option" where
  "digitVal c =
     (if 48 \<le> (of_char c :: nat) \<and> (of_char c :: nat) \<le> 57
      then Some (int (of_char c) - 48) else None)"

definition isLeap :: "int \<Rightarrow> bool" where
  "isLeap y = (y mod 4 = 0 \<and> (y mod 100 \<noteq> 0 \<or> y mod 400 = 0))"

definition daysInMonth :: "int \<Rightarrow> int \<Rightarrow> int" where
  "daysInMonth y m =
     (if m = 2 then (if isLeap y then 29 else 28)
      else if m = 4 \<or> m = 6 \<or> m = 9 \<or> m = 11 then 30 else 31)"

definition daysFromCivil :: "int \<Rightarrow> int \<Rightarrow> int \<Rightarrow> int" where
  "daysFromCivil y m d =
     (let y' = (if m \<le> 2 then y - 1 else y);
          era = y' div 400;
          yoe = y' - era * 400;
          mp = (m + 9) mod 12;
          doy = (153 * mp + 2) div 5 + d - 1;
          doe = yoe * 365 + yoe div 4 - yoe div 100 + doy
      in era * 146097 + doe - 719468)"

definition isoDate :: dateParser where
  "isoDate s =
     (case s of
        [y1, y2, y3, y4, s1, m1, m2, s2, d1, d2] \<Rightarrow>
          (case (digitVal y1, digitVal y2, digitVal y3, digitVal y4,
                 digitVal m1, digitVal m2, digitVal d1, digitVal d2) of
             (Some a, Some b, Some c, Some d, Some e, Some f, Some g, Some h) \<Rightarrow>
               (let y = 1000 * a + 100 * b + 10 * c + d; m = 10 * e + f; dd = 10 * g + h
                in if s1 = CHR ''-'' \<and> s2 = CHR ''-'' \<and> 1 \<le> m \<and> m \<le> 12
                      \<and> 1 \<le> dd \<and> dd \<le> daysInMonth y m
                   then Some (daysFromCivil y m dd * msPerDay) else None)
           | _ \<Rightarrow> None)
      | _ \<Rightarrow> None)"


section \<open>Grants (app.js)\<close>

record grant =
  g_id :: "string js"
  g_title :: "string js"
  g_agency :: "string js"
  g_category :: "string js"
  g_status :: "string js"
  g_funding_instrument :: "string js"
  g_award_floor :: "int js"
  g_award_ceiling :: "int js"
  g_total_funding :: "int js"
  g_expected_awards :: "int js"
  g_close_date :: "string js"
  g_posted_date :: "string js"
  g_cost_sharing :: "bool js"
  g_cfda_number :: "string js"
  g_opportunity_number :: "string js"
  g_description :: "string js"
  g_contact_email :: "string js"
  g_url :: "string js"

record grantsState =
  grantsData :: "grant list"
  filteredGrants :: "grant list"
  currentPage :: int
  sortColumn :: string
  sortDirection :: string
  grantsDom :: dom
  grantsAlerts :: "string list"

definition itemsPerPage :: int where
  "itemsPerPage = 20"

text \<open>\<open>f && f.toLowerCase().includes(term)\<close>, as a condition.\<close>

definition guardedIncludes :: "string js \<Rightarrow> string \<Rightarrow> bool" where
  "guardedIncludes f term =
     (case f of
        Val s \<Rightarrow> s \<noteq> [] \<and> str_includes (toLowerCase s) term
      | Undefined \<Rightarrow> False
      | Null \<Rightarrow> False)"

definition matchesSearch :: "grant \<Rightarrow> string \<Rightarrow> bool" where
  "matchesSearch grant term =
     (guardedIncludes (g_title grant) term
      \<or> guardedIncludes (g_agency grant) term
      \<or> guardedIncludes (g_description grant) term
      \<or> guardedIncludes (g_opportunity_number grant) term)"

definition matchesFundingRange :: "grant \<Rightarrow> string \<Rightarrow> bool" where
  "matchesFundingRange grant range' =
     (case g_award_ceiling grant of
        Val ceiling \<Rightarrow>
          if ceiling = 0 then range' = ''unspecified''
          else if range' = ''under-100k'' then ceiling < 100000
          else if range' = ''100k-500k'' then ceiling \<ge> 100000 \<and> ceiling < 500000
          else if range' = ''500k-1m'' then ceiling \<ge> 500000 \<and> ceiling < 1000000
          else if range' = ''1m-5m'' then ceiling \<ge> 1000000 \<and> ceiling < 5000000
          else if range' = ''5m-10m'' then ceiling \<ge> 5000000 \<and> ceiling < 10000000
          else if range' = ''over-10m'' then ceiling \<ge> 10000000
          else if range' = ''unspecified'' then False
          else True
      | Undefined \<Rightarrow> range' = ''unspecified''
      | Null \<Rightarrow> range' = ''unspecified'')"

text \<open>
  \<open>matchesDeadline\<close>: \<open>today\<close> is the time value of \<open>new Date()\<close>. With an Invalid Date
  \<open>daysDiff\<close> is NaN and every comparison with it is false.
\<close>

definition daysWithin :: "int option \<Rightarrow> int \<Rightarrow> bool" where
  "daysWithin daysDiff n =
     (case daysDiff of None \<Rightarrow> False | Some d \<Rightarrow> d \<le> n \<and> d \<ge> 0)"

definition matchesDeadline :: "dateParser \<Rightarrow> int \<Rightarrow> grant \<Rightarrow> string \<Rightarrow> bool" where
  "matchesDeadline parse today grant deadline =
     (if \<not> truthyStr (g_close_date grant) then False
      else
        (let daysDiff =
               (case g_close_date grant of
                  Val s \<Rightarrow> map_option (\<lambda>closeDate. ceilDiv (closeDate - today) msPerDay) (parse s)
                | Undefined \<Rightarrow> None
                | Null \<Rightarrow> None)
         in if deadline = ''week'' then daysWithin daysDiff 7
            else if deadline = ''month'' then daysWithin daysDiff 30
            else if deadline = ''quarter'' then daysWithin daysDiff 90
            else if deadline = ''halfyear'' then daysWithin daysDiff 180
            else if deadline = ''year'' then daysWithin daysDiff 365
            else True))"

text \<open>
  The values \<open>filterGrants\<close> reads from the controls before it filters; the search
  term and the CFDA text are lowered.
\<close>

record grantControls =
  ctl_searchTerm :: string
  ctl_agency :: string
  ctl_category :: string
  ctl_status :: string
  ctl_fundingRange :: string
  ctl_instrument :: string
  ctl_deadline :: string
  ctl_costShare :: string
  ctl_cfda :: string

definition readControls :: "dom \<Rightarrow> grantControls" where
  "readControls d =
     \<lparr>ctl_searchTerm = toLowerCase (d ''search-input''),
      ctl_agency = d ''filter-agency'',
      ctl_category = d ''filter-category'',
      ctl_status = d ''filter-status'',
      ctl_fundingRange = d ''filter-funding'',
      ctl_instrument = d ''filter-instrument'',
      ctl_deadline = d ''filter-deadline'',
      ctl_costShare = d ''filter-costshare'',
      ctl_cfda = toLowerCase (d ''filter-cfda'')\<rparr>"

text \<open>
  The callback of \<open>grantsData.filter\<close> in \<open>filterGrants\<close>: each \<open>if (...) return false\<close>
  in the order of the source, then \<open>return true\<close>.
\<close>

definition grantKept :: "dateParser \<Rightarrow> int \<Rightarrow> grantControls \<Rightarrow> grant \<Rightarrow> bool" where
  "grantKept parse today c grant =
     (if ctl_searchTerm c \<noteq> [] \<and> \<not> matchesSearch grant (ctl_searchTerm c) then False
      else if ctl_agency c \<noteq> [] \<and> g_agency grant \<noteq> Val (ctl_agency c) then False
      else if ctl_category c \<noteq> [] \<and> g_category grant \<noteq> Val (ctl_category c) then False
      else if ctl_status c \<noteq> [] \<and> g_status grant \<noteq> Val (ctl_status c) then False
      else if ctl_fundingRange c \<noteq> [] \<and> \<not> matchesFundingRange grant (ctl_fundingRange c) then False
      else if ctl_instrument c \<noteq> [] \<and> g_funding_instrument grant \<noteq> Val (ctl_instrument c) then False
      else if ctl_deadline c \<noteq> [] \<and> \<not> matchesDeadline parse today grant (ctl_deadline c) then False
      else if ctl_costShare c = ''yes'' \<and> \<not> truthyBool (g_cost_sharing grant) then False
      else if ctl_costShare c = ''no'' \<and> truthyBool (g_cost_sharing grant) then False
      else if ctl_cfda c \<noteq> [] \<and> \<not> guardedIncludes (g_cfda_number grant) (ctl_cfda c) then False
      else True)"

definition filterGrants :: "dateParser \<Rightarrow> int \<Rightarrow> grantsState \<Rightarrow> grantsState" where
  "filterGrants parse today s =
     s\<lparr>filteredGrants := filter (grantKept parse today (readControls (grantsDom s))) (grantsData s),
       currentPage := 1\<rparr>"

text \<open>
  A filter or search control set to a value by the user: the element takes the value and
  its listener runs \<open>filterGrants\<close>.
\<close>

definition grantsSetControl ::
  "dateParser \<Rightarrow> int \<Rightarrow> string \<Rightarrow> string \<Rightarrow> grantsState \<Rightarrow> grantsState" where
  "grantsSetControl parse today elementId v s =
     filterGrants parse today (s\<lparr>grantsDom := (grantsDom s)(elementId := v)\<rparr>)"

text \<open>The page window of \<open>updateTable\<close>.\<close>

definition pageGrants :: "grantsState \<Rightarrow> grant list" where
  "pageGrants s =
     (let start = (currentPage s - 1) * itemsPerPage;
          end' = start + itemsPerPage
      in slice (filteredGrants s) start end')"

definition emptyGrant :: grant where
  "emptyGrant = \<lparr>g_id = Undefined, g_title = Undefined, g_agency = Undefined,
     g_category = Undefined, g_status = Undefined, g_funding_instrument = Undefined,
     g_award_floor = Undefined, g_award_ceiling = Undefined, g_total_funding = Undefined,
     g_expected_awards = Undefined, g_close_date = Undefined, g_posted_date = Undefined,
     g_cost_sharing = Undefined, g_cfda_number = Undefined, g_opportunity_number = Undefined,
     g_description = Undefined, g_contact_email = Undefined, g_url = Undefined\<rparr>"

text \<open>A page whose controls are all at their empty first option.\<close>

definition emptyDom :: dom where
  "emptyDom = (\<lambda>elementId. [])"

definition loadedGrants :: "grant list \<Rightarrow> grantsState" where
  "loadedGrants gs = \<lparr>grantsData = gs, filteredGrants = gs, currentPage = 1,
     sortColumn = [], sortDirection = ''asc'', grantsDom = emptyDom, grantsAlerts = []\<rparr>"


section \<open>Numbers as strings\<close>

text \<open>\<open>String(n)\<close> and \<open>n.toString()\<close> for an integer: its decimal digits.\<close>

fun showNat :: "nat \<Rightarrow> string" where
  "showNat n = (if n < 10 then [char_of (48 + n)] else showNat (n div 10) @ [char_of (48 + n mod 10)])"

definition showInt :: "int \<Rightarrow> string" where
  "showInt i = (if i < 0 then CHR ''-'' # showNat (nat (- i)) else showNat (nat i))"


section \<open>SBIR/STTR (SBIRManager)\<close>

record award =
  aw_id :: "string js"
  aw_firm :: "string js"
  aw_award_title :: "string js"
  aw_agency :: "string js"
  aw_phase :: "string js"
  aw_award_amount :: "int js"
  aw_award_year :: "int js"
  aw_company_state :: "string js"
  aw_pi_name :: "string js"
  aw_abstract :: "string js"
  aw_keywords :: "string js"
  aw_contract_number :: "string js"

record company =
  co_id :: "string js"
  co_firm_name :: "string js"
  co_location :: "string js"
  co_state :: "string js"
  co_employees :: "int js"
  co_total_awards :: "int js"
  co_total_funding :: "int js"
  co_latest_award_year :: "int js"
  co_contact_name :: "string js"

record solicitation =
  so_id :: "string js"
  so_title :: "string js"
  so_agency :: "string js"
  so_solicitation_number :: "string js"
  so_open_date :: "string js"
  so_close_date :: "string js"
  so_description :: "string js"
  so_phases_offered :: "string js"
  so_status :: "string js"

datatype subtab = Awards | Companies | Solicitations

fun typeName :: "subtab \<Rightarrow> string" where
  "typeName Awards = ''awards''"
| "typeName Companies = ''companies''"
| "typeName Solicitations = ''solicitations''"

record sbirTables =
  awards :: "award list"
  companies :: "company list"
  solicitations :: "solicitation list"

record sbirState =
  sbirData :: sbirTables
  sbirFilteredData :: sbirTables
  sbirCurrentPage :: "subtab \<Rightarrow> int"
  currentSubTab :: subtab
  sbirDom :: dom
  sbirAlerts :: "string list"

definition sbirItemsPerPage :: int where
  "sbirItemsPerPage = 20"

text \<open>\<open>f?.toLowerCase().includes(term)\<close>, as a condition: \<open>undefined\<close> on a missing field.\<close>

definition optIncludes :: "string js \<Rightarrow> string \<Rightarrow> bool" where
  "optIncludes f term =
     (case f of
        Val s \<Rightarrow> str_includes (toLowerCase s) term
      | Undefined \<Rightarrow> False
      | Null \<Rightarrow> False)"

definition sbirSearchInputId :: "subtab \<Rightarrow> string" where
  "sbirSearchInputId type = ''sbir-'' @ typeName type @ ''-search-input''"

definition sbirFilterId :: "subtab \<Rightarrow> string \<Rightarrow> string" where
  "sbirFilterId type name = ''sbir-'' @ typeName type @ ''-filter-'' @ name"

definition awardMatchesSearch :: "string \<Rightarrow> award \<Rightarrow> bool" where
  "awardMatchesSearch searchTerm item =
     (optIncludes (aw_award_title item) searchTerm
      \<or> optIncludes (aw_firm item) searchTerm
      \<or> optIncludes (aw_abstract item) searchTerm
      \<or> optIncludes (aw_keywords item) searchTerm)"

definition companyMatchesSearch :: "string \<Rightarrow> company \<Rightarrow> bool" where
  "companyMatchesSearch searchTerm item =
     (optIncludes (co_firm_name item) searchTerm
      \<or> optIncludes (co_location item) searchTerm)"

definition solicitationMatchesSearch :: "string \<Rightarrow> solicitation \<Rightarrow> bool" where
  "solicitationMatchesSearch searchTerm item =
     (optIncludes (so_title item) searchTerm
      \<or> optIncludes (so_description item) searchTerm)"

definition sbir_matchesFundingRange :: "int js \<Rightarrow> string \<Rightarrow> bool" where
  "sbir_matchesFundingRange amount range' =
     (case amount of
        Val a \<Rightarrow>
          if a = 0 then range' = ''under-500k''
          else if range' = ''under-500k'' then a < 500000
          else if range' = ''500k-1m'' then a \<ge> 500000 \<and> a < 1000000
          else if range' = ''1m-5m'' then a \<ge> 1000000 \<and> a < 5000000
          else if range' = ''5m-10m'' then a \<ge> 5000000 \<and> a < 10000000
          else if range' = ''over-10m'' then a \<ge> 10000000
          else True
      | Undefined \<Rightarrow> range' = ''under-500k''
      | Null \<Rightarrow> range' = ''under-500k'')"

text \<open>
  \<open>matchesAwardsRange\<close> has no guard: a missing count fails every comparison of the
  four cases (\<open>undefined\<close> compares as NaN, \<open>null\<close> as 0).
\<close>

definition matchesAwardsRange :: "int js \<Rightarrow> string \<Rightarrow> bool" where
  "matchesAwardsRange count' range' =
     (if range' = ''1'' then count' = Val 1
      else if range' = ''2-5'' then (case count' of Val n \<Rightarrow> n \<ge> 2 \<and> n \<le> 5 | Undefined \<Rightarrow> False | Null \<Rightarrow> False)
      else if range' = ''6-10'' then (case count' of Val n \<Rightarrow> n \<ge> 6 \<and> n \<le> 10 | Undefined \<Rightarrow> False | Null \<Rightarrow> False)
      else if range' = ''over-10'' then (case count' of Val n \<Rightarrow> n > 10 | Undefined \<Rightarrow> False | Null \<Rightarrow> False)
      else True)"

definition matchesEmployeesRange :: "int js \<Rightarrow> string \<Rightarrow> bool" where
  "matchesEmployeesRange count' range' =
     (case count' of
        Val n \<Rightarrow>
          if n = 0 then True
          else if range' = ''under-10'' then n < 10
          else if range' = ''10-50'' then n \<ge> 10 \<and> n \<le> 50
          else if range' = ''50-100'' then n \<ge> 50 \<and> n \<le> 100
          else if range' = ''over-100'' then n > 100
          else True
      | Undefined \<Rightarrow> True
      | Null \<Rightarrow> True)"

text \<open>\<open>if (v) data = data.filter(p)\<close>.\<close>

definition filterIf :: "string \<Rightarrow> ('a \<Rightarrow> bool) \<Rightarrow> 'a list \<Rightarrow> 'a list" where
  "filterIf v p data = (if v \<noteq> [] then filter p data else data)"

definition yearMatches :: "int js \<Rightarrow> string \<Rightarrow> bool" where
  "yearMatches y yearFilter =
     (case y of Val n \<Rightarrow> showInt n = yearFilter | Undefined \<Rightarrow> False | Null \<Rightarrow> False)"

text \<open>\<open>item.phases_offered?.includes(phasesFilter)\<close>.\<close>

definition phasesInclude :: "string js \<Rightarrow> string \<Rightarrow> bool" where
  "phasesInclude f phasesFilter =
     (case f of Val s \<Rightarrow> str_includes s phasesFilter | Undefined \<Rightarrow> False | Null \<Rightarrow> False)"

definition applyAwardFilters :: "dom \<Rightarrow> award list \<Rightarrow> award list" where
  "applyAwardFilters d data =
     (let agencyFilter = d ''sbir-awards-filter-agency'';
          phaseFilter = d ''sbir-awards-filter-phase'';
          yearFilter = d ''sbir-awards-filter-year'';
          stateFilter = d ''sbir-awards-filter-state''
      in filterIf stateFilter (\<lambda>item. aw_company_state item = Val stateFilter)
           (filterIf yearFilter (\<lambda>item. yearMatches (aw_award_year item) yearFilter)
              (filterIf phaseFilter (\<lambda>item. aw_phase item = Val phaseFilter)
                 (filterIf agencyFilter (\<lambda>item. aw_agency item = Val agencyFilter) data))))"

definition applyCompanyFilters :: "dom \<Rightarrow> company list \<Rightarrow> company list" where
  "applyCompanyFilters d data =
     (let stateFilter = d ''sbir-companies-filter-state'';
          fundingFilter = d ''sbir-companies-filter-funding'';
          awardsFilter = d ''sbir-companies-filter-awards'';
          employeesFilter = d ''sbir-companies-filter-employees''
      in filterIf employeesFilter (\<lambda>item. matchesEmployeesRange (co_employees item) employeesFilter)
           (filterIf awardsFilter (\<lambda>item. matchesAwardsRange (co_total_awards item) awardsFilter)
              (filterIf fundingFilter (\<lambda>item. sbir_matchesFundingRange (co_total_funding item) fundingFilter)
                 (filterIf stateFilter (\<lambda>item. co_state item = Val stateFilter) data))))"

definition applySolicitationFilters :: "dom \<Rightarrow> solicitation list \<Rightarrow> solicitation list" where
  "applySolicitationFilters d data =
     (let agencyFilter = d ''sbir-solicitations-filter-agency'';
          statusFilter = d ''sbir-solicitations-filter-status'';
          phasesFilter = d ''sbir-solicitations-filter-phases''
      in filterIf phasesFilter (\<lambda>item. phasesInclude (so_phases_offered item) phasesFilter)
           (filterIf statusFilter (\<lambda>item. so_status item = Val statusFilter)
              (filterIf agencyFilter (\<lambda>item. so_agency item = Val agencyFilter) data)))"

text \<open>
  \<open>applyFilters(type)\<close> starts from \<open>this.filteredData[type]\<close>, narrows it by the
  filters of the type that are set, stores it back and resets the page of the type.
\<close>

definition sbir_applyFilters :: "subtab \<Rightarrow> sbirState \<Rightarrow> sbirState" where
  "sbir_applyFilters type s =
     (let fd = sbirFilteredData s;
          fd' = (case type of
                   Awards \<Rightarrow> fd\<lparr>awards := applyAwardFilters (sbirDom s) (awards fd)\<rparr>
                 | Companies \<Rightarrow> fd\<lparr>companies := applyCompanyFilters (sbirDom s) (companies fd)\<rparr>
                 | Solicitations \<Rightarrow>
                     fd\<lparr>solicitations := applySolicitationFilters (sbirDom s) (solicitations fd)\<rparr>)
      in s\<lparr>sbirFilteredData := fd', sbirCurrentPage := (sbirCurrentPage s)(type := 1)\<rparr>)"

definition sbir_performSearch :: "subtab \<Rightarrow> sbirState \<Rightarrow> sbirState" where
  "sbir_performSearch type s =
     (let searchTerm = trim (toLowerCase (sbirDom s (sbirSearchInputId type)));
          fd = sbirFilteredData s;
          fd' = (case type of
                   Awards \<Rightarrow> fd\<lparr>awards := filter (awardMatchesSearch searchTerm) (awards (sbirData s))\<rparr>
                 | Companies \<Rightarrow>
                     fd\<lparr>companies := filter (companyMatchesSearch searchTerm) (companies (sbirData s))\<rparr>
                 | Solicitations \<Rightarrow>
                     fd\<lparr>solicitations :=
                          filter (solicitationMatchesSearch searchTerm) (solicitations (sbirData s))\<rparr>)
      in sbir_applyFilters type (s\<lparr>sbirFilteredData := fd'\<rparr>))"

text \<open>
  \<open>clearFilters(type)\<close>: the search input is emptied and every select of the filter grid
  of the type goes to its first option, whose value is empty; the selects are the ones
  \<open>applyFilters\<close> reads for the type.
\<close>

fun sbirFilterNames :: "subtab \<Rightarrow> string list" where
  "sbirFilterNames Awards = [''agency'', ''phase'', ''year'', ''state'']"
| "sbirFilterNames Companies = [''state'', ''funding'', ''awards'', ''employees'']"
| "sbirFilterNames Solicitations = [''agency'', ''status'', ''phases'']"

definition clearedDom :: "string list \<Rightarrow> dom \<Rightarrow> dom" where
  "clearedDom ids d = (\<lambda>elementId. if elementId \<in> set ids then [] else d elementId)"

definition sbir_clearFilters :: "subtab \<Rightarrow> sbirState \<Rightarrow> sbirState" where
  "sbir_clearFilters type s =
     (let fd = sbirFilteredData s;
          fd' = (case type of
                   Awards \<Rightarrow> fd\<lparr>awards := awards (sbirData s)\<rparr>
                 | Companies \<Rightarrow> fd\<lparr>companies := companies (sbirData s)\<rparr>
                 | Solicitations \<Rightarrow> fd\<lparr>solicitations := solicitations (sbirData s)\<rparr>)
      in s\<lparr>sbirDom := clearedDom (sbirSearchInputId type # map (sbirFilterId type) (sbirFilterNames type))
                          (sbirDom s),
            sbirFilteredData := fd',
            sbirCurrentPage := (sbirCurrentPage s)(type := 1)\<rparr>)"

definition switchSubTab :: "subtab \<Rightarrow> sbirState \<Rightarrow> sbirState" where
  "switchSubTab subtab' s = s\<lparr>currentSubTab := subtab'\<rparr>"

definition sbir_changePage :: "subtab \<Rightarrow> int \<Rightarrow> sbirState \<Rightarrow> sbirState" where
  "sbir_changePage type page s = s\<lparr>sbirCurrentPage := (sbirCurrentPage s)(type := page)\<rparr>"

text \<open>The page window of \<open>displayData(type)\<close>, on the filtered list of the type.\<close>

definition sbirPageData :: "int \<Rightarrow> 'a list \<Rightarrow> 'a list" where
  "sbirPageData page filtered =
     (let startIndex = (page - 1) * sbirItemsPerPage;
          endIndex = startIndex + sbirItemsPerPage
      in slice filtered startIndex endIndex)"

text \<open>
  \<open>Array.prototype.find\<close> with a callback that may throw: the first element the
  callback accepts, \<open>None\<close> for \<open>undefined\<close>; a throw ends it.
\<close>

fun findE :: "('a \<Rightarrow> error + bool) \<Rightarrow> 'a list \<Rightarrow> error + 'a option" where
  "findE p [] = Inr None"
| "findE p (x # xs) =
     (case p x of
        Inl e \<Rightarrow> Inl e
      | Inr b \<Rightarrow> if b then Inr (Some x) else findE p xs)"

text \<open>\<open>c.firm_name.toLowerCase() === companyName.toLowerCase()\<close>; the field is not guarded.\<close>

definition firmNameIs :: "string \<Rightarrow> company \<Rightarrow> error + bool" where
  "firmNameIs companyName c =
     (case co_firm_name c of
        Val f \<Rightarrow> Inr (toLowerCase f = toLowerCase companyName)
      | Undefined \<Rightarrow> Inl TypeError
      | Null \<Rightarrow> Inl TypeError)"

definition notFoundMessage :: "string \<Rightarrow> string" where
  "notFoundMessage companyName =
     ''Company '' @ [CHR 0x22] @ companyName @ [CHR 0x22] @ '' not found in the companies database.''"

definition showCompanyFromName :: "string \<Rightarrow> sbirState \<Rightarrow> error + sbirState" where
  "showCompanyFromName companyName s =
     (case findE (firmNameIs companyName) (companies (sbirData s)) of
        Inl e \<Rightarrow> Inl e
      | Inr (Some company) \<Rightarrow>
          (let s1 = sbir_clearFilters Companies (switchSubTab Companies s);
               s2 = s1\<lparr>sbirDom := (sbirDom s1)(''sbir-companies-search-input'' := companyName)\<rparr>
           in Inr (sbir_performSearch Companies s2))
      | Inr None \<Rightarrow> Inr (s\<lparr>sbirAlerts := sbirAlerts s @ [notFoundMessage companyName]\<rparr>))"

definition emptyCompany :: company where
  "emptyCompany = \<lparr>co_id = Undefined, co_firm_name = Undefined, co_location = Undefined,
     co_state = Undefined, co_employees = Undefined, co_total_awards = Undefined,
     co_total_funding = Undefined, co_latest_award_year = Undefined, co_contact_name = Undefined\<rparr>"

text \<open>The state \<open>loadSBIRData\<close> leaves: the filtered tables are copies of the loaded ones.\<close>

definition loadedSbir :: "sbirTables \<Rightarrow> sbirState" where
  "loadedSbir t = \<lparr>sbirData = t, sbirFilteredData = t, sbirCurrentPage = (\<lambda>type. 1),
     currentSubTab = Awards, sbirDom = emptyDom, sbirAlerts = []\<rparr>"


section \<open>Federal Register NOFAs (NOFAsManager)\<close>

record nofa =
  nf_id :: "string js"
  nf_title :: "string js"
  nf_agency :: "string js"
  nf_document_number :: "string js"
  nf_publication_date :: "string js"
  nf_effective_date :: "string js"
  nf_abstract :: "string js"
  nf_funding_amount :: "int js"
  nf_application_deadline :: "string js"
  nf_keywords :: "string list js"
  nf_significant :: "bool js"
  nf_docket_id :: "string js"

record nofasState =
  nofasData :: "nofa list"
  nofasFilteredData :: "nofa list"
  nofasCurrentPage :: int
  nofasDom :: dom

definition nofasItemsPerPage :: int where
  "nofasItemsPerPage = 20"

text \<open>\<open>nofa.keywords?.some(keyword => keyword.toLowerCase().includes(searchTerm))\<close>.\<close>

definition keywordsInclude :: "string list js \<Rightarrow> string \<Rightarrow> bool" where
  "keywordsInclude ks searchTerm =
     (case ks of
        Val kws \<Rightarrow> list_ex (\<lambda>keyword. str_includes (toLowerCase keyword) searchTerm) kws
      | Undefined \<Rightarrow> False
      | Null \<Rightarrow> False)"

definition nofaMatchesSearch :: "string \<Rightarrow> nofa \<Rightarrow> bool" where
  "nofaMatchesSearch searchTerm n =
     (optIncludes (nf_title n) searchTerm
      \<or> optIncludes (nf_agency n) searchTerm
      \<or> optIncludes (nf_abstract n) searchTerm
      \<or> keywordsInclude (nf_keywords n) searchTerm
      \<or> optIncludes (nf_document_number n) searchTerm)"

definition nofas_matchesFundingRange :: "int js \<Rightarrow> string \<Rightarrow> bool" where
  "nofas_matchesFundingRange amount range' =
     (case amount of
        Val a \<Rightarrow>
          if a = 0 then range' = ''unspecified''
          else if range' = ''under-1m'' then a < 1000000
          else if range' = ''1m-10m'' then a \<ge> 1000000 \<and> a < 10000000
          else if range' = ''10m-100m'' then a \<ge> 10000000 \<and> a < 100000000
          else if range' = ''over-100m'' then a \<ge> 100000000
          else True
      | Undefined \<Rightarrow> range' = ''unspecified''
      | Null \<Rightarrow> range' = ''unspecified'')"

definition matchesDeadlineFilter :: "string js \<Rightarrow> string \<Rightarrow> bool" where
  "matchesDeadlineFilter deadline filter' =
     (if \<not> truthyStr deadline then filter' \<noteq> ''open''
      else
        (let deadlineText = (case deadline of Val s \<Rightarrow> toLowerCase s | Undefined \<Rightarrow> [] | Null \<Rightarrow> [])
         in if filter' = ''open''
            then str_includes deadlineText ''open'' \<or> str_includes deadlineText ''accepting''
                 \<or> str_includes deadlineText ''due''
            else if filter' = ''week''
            then str_includes deadlineText ''7 days'' \<or> str_includes deadlineText ''week''
            else if filter' = ''month''
            then str_includes deadlineText ''30 days'' \<or> str_includes deadlineText ''month''
            else if filter' = ''quarter''
            then str_includes deadlineText ''quarter'' \<or> str_includes deadlineText ''3 months''
            else True))"

text \<open>
  The cutoff of the date filter: \<open>now\<close> is the time value of \<open>new Date()\<close>; a filter
  value outside the four cases leaves \<open>cutoffDate\<close> undefined.
\<close>

definition cutoffDate :: "int \<Rightarrow> string \<Rightarrow> int option" where
  "cutoffDate now dateFilter =
     (if dateFilter = ''week'' then Some (now - 7 * 24 * 60 * 60 * 1000)
      else if dateFilter = ''month'' then Some (now - 30 * 24 * 60 * 60 * 1000)
      else if dateFilter = ''quarter'' then Some (now - 90 * 24 * 60 * 60 * 1000)
      else if dateFilter = ''year'' then Some (now - 365 * 24 * 60 * 60 * 1000)
      else None)"

definition publishedSince :: "dateParser \<Rightarrow> int \<Rightarrow> nofa \<Rightarrow> bool" where
  "publishedSince parse cutoff n =
     (case nf_publication_date n of
        Val s \<Rightarrow> s \<noteq> [] \<and> (case parse s of None \<Rightarrow> False | Some pubDate \<Rightarrow> pubDate \<ge> cutoff)
      | Undefined \<Rightarrow> False
      | Null \<Rightarrow> False)"

text \<open>
  \<open>applyFilters\<close> starts from \<open>this.filteredData\<close>, narrows it by each filter that is set,
  in the order of the source, stores it back and resets the page.
\<close>

definition nofas_applyFilters :: "dateParser \<Rightarrow> int \<Rightarrow> nofasState \<Rightarrow> nofasState" where
  "nofas_applyFilters parse now s =
     (let d = nofasDom s;
          data0 = nofasFilteredData s;
          agencyFilter = d ''nofas-filter-agency'';
          data1 = filterIf agencyFilter (\<lambda>n. nf_agency n = Val agencyFilter) data0;
          dateFilter = d ''nofas-filter-date'';
          data2 = (if dateFilter \<noteq> []
                   then (case cutoffDate now dateFilter of
                           Some cutoff \<Rightarrow> filter (publishedSince parse cutoff) data1
                         | None \<Rightarrow> data1)
                   else data1);
          fundingFilter = d ''nofas-filter-funding'';
          data3 = filterIf fundingFilter
                    (\<lambda>n. nofas_matchesFundingRange (nf_funding_amount n) fundingFilter) data2;
          deadlineFilter = d ''nofas-filter-deadline'';
          data4 = filterIf deadlineFilter
                    (\<lambda>n. matchesDeadlineFilter (nf_application_deadline n) deadlineFilter) data3;
          significantFilter = d ''nofas-filter-significant'';
          data5 = filterIf significantFilter
                    (\<lambda>n. nf_significant n = Val (significantFilter = ''true'')) data4;
          docketFilter = trim (d ''nofas-filter-docket'');
          data6 = filterIf docketFilter
                    (\<lambda>n. optIncludes (nf_docket_id n) (toLowerCase docketFilter)) data5
      in s\<lparr>nofasFilteredData := data6, nofasCurrentPage := 1\<rparr>)"

definition nofas_performSearch :: "dateParser \<Rightarrow> int \<Rightarrow> nofasState \<Rightarrow> nofasState" where
  "nofas_performSearch parse now s =
     (let searchTerm = trim (toLowerCase (nofasDom s ''nofas-search-input''))
      in nofas_applyFilters parse now
           (s\<lparr>nofasFilteredData := filter (nofaMatchesSearch searchTerm) (nofasData s)\<rparr>))"

text \<open>
  A control of the filter grid set to a value by the user: the element takes the value
  and the \<open>change\<close> listener of the grid runs \<open>applyFilters\<close>.
\<close>

definition nofasSetFilter ::
  "dateParser \<Rightarrow> int \<Rightarrow> string \<Rightarrow> string \<Rightarrow> nofasState \<Rightarrow> nofasState" where
  "nofasSetFilter parse now elementId v s =
     nofas_applyFilters parse now (s\<lparr>nofasDom := (nofasDom s)(elementId := v)\<rparr>)"

text \<open>The search input set to a value: its \<open>input\<close> listener runs \<open>performSearch\<close>.\<close>

definition nofasSetSearch :: "dateParser \<Rightarrow> int \<Rightarrow> string \<Rightarrow> nofasState \<Rightarrow> nofasState" where
  "nofasSetSearch parse now v s =
     nofas_performSearch parse now (s\<lparr>nofasDom := (nofasDom s)(''nofas-search-input'' := v)\<rparr>)"

definition nofas_changePage :: "int \<Rightarrow> nofasState \<Rightarrow> nofasState" where
  "nofas_changePage page s = s\<lparr>nofasCurrentPage := page\<rparr>"

definition emptyNofa :: nofa where
  "emptyNofa = \<lparr>nf_id = Undefined, nf_title = Undefined, nf_agency = Undefined,
     nf_document_number = Undefined, nf_publication_date = Undefined,
     nf_effective_date = Undefined, nf_abstract = Undefined, nf_funding_amount = Undefined,
     nf_application_deadline = Undefined, nf_keywords = Undefined, nf_significant = Undefined,
     nf_docket_id = Undefined\<rparr>"

text \<open>The state \<open>loadNOFAsData\<close> leaves: the filtered list is a copy of the loaded one.\<close>

definition loadedNofas :: "nofa list \<Rightarrow> nofasState" where
  "loadedNofas ns = \<lparr>nofasData = ns, nofasFilteredData = ns, nofasCurrentPage = 1,
     nofasDom = emptyDom\<rparr>"


section \<open>Sorting\<close>

text \<open>
  \<open>Array.prototype.sort\<close> is a stable sort. A comparator result \<open>None\<close> is NaN, which
  the sort reads as \<open>+0\<close>. With a consistent comparator every stable sort gives the same
  array; it is computed here by stable insertion, from the right.
\<close>

definition comparesAfter :: "int option \<Rightarrow> bool" where
  "comparesAfter r = (case r of Some v \<Rightarrow> v > 0 | None \<Rightarrow> False)"

fun insertWith :: "('a \<Rightarrow> 'a \<Rightarrow> int option) \<Rightarrow> 'a \<Rightarrow> 'a list \<Rightarrow> 'a list" where
  "insertWith cmp x [] = [x]"
| "insertWith cmp x (y # ys) =
     (if comparesAfter (cmp x y) then y # insertWith cmp x ys else x # y # ys)"

definition sortWith :: "('a \<Rightarrow> 'a \<Rightarrow> int option) \<Rightarrow> 'a list \<Rightarrow> 'a list" where
  "sortWith cmp xs = foldr (insertWith cmp) xs []"

text \<open>\<open>a < b\<close> on strings: by code units, a proper prefix first.\<close>

fun strLess :: "string \<Rightarrow> string \<Rightarrow> bool" where
  "strLess [] [] = False"
| "strLess [] (y # ys) = True"
| "strLess (x # xs) [] = False"
| "strLess (x # xs) (y # ys) =
     (if (of_char x :: nat) < of_char y then True
      else if (of_char y :: nat) < of_char x then False
      else strLess xs ys)"

text \<open>\<open>String(v)\<close> of a string field.\<close>

fun strOf :: "string js \<Rightarrow> string" where
  "strOf (Val s) = s"
| "strOf Null = ''null''"
| "strOf Undefined = ''undefined''"

text \<open>
  \<open>xs.sort()\<close> without a comparator: \<open>undefined\<close> goes to the end, the rest is ordered by
  the strings of the elements.
\<close>

definition defaultCompare :: "string js \<Rightarrow> string js \<Rightarrow> int option" where
  "defaultCompare x y =
     (if strLess (strOf x) (strOf y) then Some (- 1)
      else if strLess (strOf y) (strOf x) then Some 1
      else Some 0)"

definition defaultSort :: "string js list \<Rightarrow> string js list" where
  "defaultSort xs =
     sortWith defaultCompare (filter (\<lambda>x. x \<noteq> Undefined) xs) @ filter (\<lambda>x. x = Undefined) xs"

text \<open>\<open>[...new Set(xs)]\<close>: the elements in the order of their first occurrence.\<close>

definition newSet :: "'a list \<Rightarrow> 'a list" where
  "newSet xs = foldl (\<lambda>acc x. if x \<in> set acc then acc else acc @ [x]) [] xs"


section \<open>Filter option lists\<close>

text \<open>
  \<open>populateFilters\<close> of app.js: the option lists of the agency, category and status
  selects.
\<close>

definition populateFilters :: "grant list \<Rightarrow> string js list \<times> string js list \<times> string js list" where
  "populateFilters gs =
     (let agencies = defaultSort (newSet (map g_agency gs));
          categories = defaultSort (newSet (map g_category gs));
          statuses = defaultSort (newSet (map g_status gs))
      in (agencies, categories, statuses))"

text \<open>\<open>populateFilterOptions\<close> of the NOFAs manager: \<open>.filter(Boolean)\<close> comes first.\<close>

definition nofas_populateFilterOptions :: "nofa list \<Rightarrow> string js list" where
  "nofas_populateFilterOptions ns = defaultSort (newSet (filter truthyStr (map nf_agency ns)))"


section \<open>Sorting the grants table (app.js)\<close>

text \<open>The value of \<open>a[column]\<close>, for a column name known only when the table is clicked.\<close>

datatype jsv = VUndefined | VNull | VBool bool | VNum int | VStr string

fun ofStr :: "string js \<Rightarrow> jsv" where
  "ofStr (Val s) = VStr s"
| "ofStr Null = VNull"
| "ofStr Undefined = VUndefined"

fun ofNum :: "int js \<Rightarrow> jsv" where
  "ofNum (Val n) = VNum n"
| "ofNum Null = VNull"
| "ofNum Undefined = VUndefined"

fun ofBool :: "bool js \<Rightarrow> jsv" where
  "ofBool (Val b) = VBool b"
| "ofBool Null = VNull"
| "ofBool Undefined = VUndefined"

definition grantField :: "grant \<Rightarrow> string \<Rightarrow> jsv" where
  "grantField g column =
     (if column = ''id'' then ofStr (g_id g)
      else if column = ''title'' then ofStr (g_title g)
      else if column = ''agency'' then ofStr (g_agency g)
      else if column = ''category'' then ofStr (g_category g)
      else if column = ''status'' then ofStr (g_status g)
      else if column = ''funding_instrument'' then ofStr (g_funding_instrument g)
      else if column = ''award_floor'' then ofNum (g_award_floor g)
      else if column = ''award_ceiling'' then ofNum (g_award_ceiling g)
      else if column = ''total_funding'' then ofNum (g_total_funding g)
      else if column = ''expected_awards'' then ofNum (g_expected_awards g)
      else if column = ''close_date'' then ofStr (g_close_date g)
      else if column = ''posted_date'' then ofStr (g_posted_date g)
      else if column = ''cost_sharing'' then ofBool (g_cost_sharing g)
      else if column = ''cfda_number'' then ofStr (g_cfda_number g)
      else if column = ''opportunity_number'' then ofStr (g_opportunity_number g)
      else if column = ''description'' then ofStr (g_description g)
      else if column = ''contact_email'' then ofStr (g_contact_email g)
      else if column = ''url'' then ofStr (g_url g)
      else VUndefined)"

fun truthy :: "jsv \<Rightarrow> bool" where
  "truthy VUndefined = False"
| "truthy VNull = False"
| "truthy (VBool b) = b"
| "truthy (VNum n) = (n \<noteq> 0)"
| "truthy (VStr s) = (s \<noteq> [])"

text \<open>\<open>a || b\<close>.\<close>

definition orElse :: "jsv \<Rightarrow> jsv \<Rightarrow> jsv" where
  "orElse a b = (if truthy a then a else b)"

text \<open>\<open>if (v === null || v === undefined) v = ''\<close>.\<close>

definition nullToEmpty :: "jsv \<Rightarrow> jsv" where
  "nullToEmpty v = (if v = VNull \<or> v = VUndefined then VStr [] else v)"

text \<open>
  The number a value stands for in \<open>a - b\<close> and in \<open>a < b\<close>; \<open>None\<close> is NaN. No column
  compared as a number holds a non-empty string, which is left as NaN here.
\<close>

fun toNumber :: "jsv \<Rightarrow> int option" where
  "toNumber (VNum n) = Some n"
| "toNumber (VBool b) = Some (if b then 1 else 0)"
| "toNumber VNull = Some 0"
| "toNumber VUndefined = None"
| "toNumber (VStr s) = (if s = [] then Some 0 else None)"

definition jsMinus :: "int option \<Rightarrow> int option \<Rightarrow> int option" where
  "jsMinus a b = (case a of None \<Rightarrow> None | Some x \<Rightarrow> (case b of None \<Rightarrow> None | Some y \<Rightarrow> Some (x - y)))"

text \<open>The time value of \<open>new Date(v)\<close>: a string is parsed, a number is the time value.\<close>

fun newDate :: "dateParser \<Rightarrow> jsv \<Rightarrow> int option" where
  "newDate parse (VStr s) = parse s"
| "newDate parse (VNum n) = Some n"
| "newDate parse (VBool b) = Some (if b then 1 else 0)"
| "newDate parse VNull = Some 0"
| "newDate parse VUndefined = None"

fun stringOf :: "jsv \<Rightarrow> string" where
  "stringOf (VStr s) = s"
| "stringOf (VNum n) = showInt n"
| "stringOf (VBool b) = (if b then ''true'' else ''false'')"
| "stringOf VNull = ''null''"
| "stringOf VUndefined = ''undefined''"

text \<open>The comparator of \<open>sortTable\<close>.\<close>

definition compareGrants :: "dateParser \<Rightarrow> string \<Rightarrow> string \<Rightarrow> grant \<Rightarrow> grant \<Rightarrow> int option" where
  "compareGrants parse column direction a b =
     (let valA = nullToEmpty (grantField a column);
          valB = nullToEmpty (grantField b column)
      in if column = ''award_ceiling'' \<or> column = ''total_funding''
         then (let nA = toNumber (orElse valA (VNum 0));
                   nB = toNumber (orElse valB (VNum 0))
               in if direction = ''asc'' then jsMinus nA nB else jsMinus nB nA)
         else if column = ''close_date'' \<or> column = ''posted_date''
         then (let dA = newDate parse (orElse valA (VStr ''2099-12-31''));
                   dB = newDate parse (orElse valB (VStr ''2099-12-31''))
               in if direction = ''asc'' then jsMinus dA dB else jsMinus dB dA)
         else (let sA = toLowerCase (stringOf valA);
                   sB = toLowerCase (stringOf valB)
               in if strLess sA sB then Some (if direction = ''asc'' then - 1 else 1)
                  else if strLess sB sA then Some (if direction = ''asc'' then 1 else - 1)
                  else Some 0))"

definition sortTable :: "dateParser \<Rightarrow> string \<Rightarrow> grantsState \<Rightarrow> grantsState" where
  "sortTable parse column s =
     (let direction =
            (if sortColumn s = column
             then (if sortDirection s = ''asc'' then ''desc'' else ''asc'')
             else ''asc'')
      in s\<lparr>sortColumn := column, sortDirection := direction,
            filteredGrants := sortWith (compareGrants parse column direction) (filteredGrants s)\<rparr>)"

text \<open>
  The date a grant is ordered by under a date column: its parsed date, and the parsed
  \<open>2099-12-31\<close> when the field is absent, null or empty.
\<close>

definition grantDateKey :: "dateParser \<Rightarrow> string \<Rightarrow> grant \<Rightarrow> int option" where
  "grantDateKey parse column g =
     newDate parse (orElse (nullToEmpty (grantField g column)) (VStr ''2099-12-31''))"


text \<open>Whether the date a grant is ordered by is a valid date, and its time value.\<close>

definition grantDateParses :: "dateParser \<Rightarrow> string \<Rightarrow> grant \<Rightarrow> bool" where
  "grantDateParses parse column g = (grantDateKey parse column g \<noteq> None)"

definition grantDateTime :: "dateParser \<Rightarrow> string \<Rightarrow> grant \<Rightarrow> int" where
  "grantDateTime parse column g = (case grantDateKey parse column g of Some t \<Rightarrow> t | None \<Rightarrow> 0)"


section \<open>Sorting the NOFAs table\<close>

text \<open>\<open>Array.prototype.join\<close> on strings.\<close>

fun joinWith :: "string \<Rightarrow> string list \<Rightarrow> string" where
  "joinWith sep [] = []"
| "joinWith sep [x] = x"
| "joinWith sep (x # y # ys) = x @ sep @ joinWith sep (y # ys)"

text \<open>
  \<open>a[column]\<close> on a NOFA. The keywords array stands as its string, which is what a
  comparison makes of it.
\<close>

definition nofaField :: "nofa \<Rightarrow> string \<Rightarrow> jsv" where
  "nofaField n column =
     (if column = ''id'' then ofStr (nf_id n)
      else if column = ''title'' then ofStr (nf_title n)
      else if column = ''agency'' then ofStr (nf_agency n)
      else if column = ''document_number'' then ofStr (nf_document_number n)
      else if column = ''publication_date'' then ofStr (nf_publication_date n)
      else if column = ''effective_date'' then ofStr (nf_effective_date n)
      else if column = ''abstract'' then ofStr (nf_abstract n)
      else if column = ''funding_amount'' then ofNum (nf_funding_amount n)
      else if column = ''application_deadline'' then ofStr (nf_application_deadline n)
      else if column = ''keywords''
      then (case nf_keywords n of Val ks \<Rightarrow> VStr (joinWith '','' ks)
            | Null \<Rightarrow> VNull | Undefined \<Rightarrow> VUndefined)
      else if column = ''significant'' then ofBool (nf_significant n)
      else if column = ''docket_id'' then ofStr (nf_docket_id n)
      else VUndefined)"

text \<open>What the comparator compares: a Date, by its time value, or a plain value.\<close>

datatype sortVal = DateVal "int option" | Plain jsv

text \<open>\<open>a < b\<close>: two strings by code units, anything else as numbers; false on NaN.\<close>

definition numLess :: "int option \<Rightarrow> int option \<Rightarrow> bool" where
  "numLess a b = (case a of None \<Rightarrow> False | Some x \<Rightarrow> (case b of None \<Rightarrow> False | Some y \<Rightarrow> x < y))"

fun asNumber :: "sortVal \<Rightarrow> int option" where
  "asNumber (DateVal t) = t"
| "asNumber (Plain v) = toNumber v"

fun jsLess :: "sortVal \<Rightarrow> sortVal \<Rightarrow> bool" where
  "jsLess (Plain (VStr a)) (Plain (VStr b)) = strLess a b"
| "jsLess a b = numLess (asNumber a) (asNumber b)"

definition nofaSortVal :: "dateParser \<Rightarrow> string \<Rightarrow> nofa \<Rightarrow> sortVal" where
  "nofaSortVal parse column n =
     (let v = orElse (nofaField n column) (VStr [])
      in if str_includes column ''date'' then DateVal (newDate parse (orElse v (VNum 0)))
         else if column = ''funding_amount'' then Plain (orElse v (VNum 0))
         else Plain v)"

definition compareNofas :: "dateParser \<Rightarrow> string \<Rightarrow> nofa \<Rightarrow> nofa \<Rightarrow> int option" where
  "compareNofas parse column a b =
     (let aVal = nofaSortVal parse column a;
          bVal = nofaSortVal parse column b
      in if jsLess aVal bVal then Some (- 1)
         else if jsLess bVal aVal then Some 1
         else Some 0)"

definition nofas_sortTable :: "dateParser \<Rightarrow> string \<Rightarrow> nofasState \<Rightarrow> nofasState" where
  "nofas_sortTable parse column s =
     s\<lparr>nofasFilteredData := sortWith (compareNofas parse column) (nofasFilteredData s)\<rparr>"


text \<open>
  The date a NOFA is ordered by under a column whose name contains \<open>date\<close>: its parsed
  date, and the time value 0 when the field is absent, null or empty.
\<close>

definition nofaDateKey :: "dateParser \<Rightarrow> string \<Rightarrow> nofa \<Rightarrow> int option" where
  "nofaDateKey parse column n =
     newDate parse (orElse (orElse (nofaField n column) (VStr [])) (VNum 0))"

definition nofaDateParses :: "dateParser \<Rightarrow> string \<Rightarrow> nofa \<Rightarrow> bool" where
  "nofaDateParses parse column n = (nofaDateKey parse column n \<noteq> None)"

definition nofaDateTime :: "dateParser \<Rightarrow> string \<Rightarrow> nofa \<Rightarrow> int" where
  "nofaDateTime parse column n = (case nofaDateKey parse column n of Some t \<Rightarrow> t | None \<Rightarrow> 0)"


section \<open>CSV export\<close>

definition dquote :: char where
  "dquote = CHR 0x22"

definition newline :: char where
  "newline = CHR 0x0A"

text \<open>\<open>s.replace(/"/g, '""')\<close>.\<close>

definition doubleQuotes :: "string \<Rightarrow> string" where
  "doubleQuotes s = concat (map (\<lambda>c. if c = dquote then [dquote, dquote] else [c]) s)"

text \<open>The field of a row in \<open>exportResults\<close> of app.js, from \<open>String(value)\<close>.\<close>

definition csvField :: "string \<Rightarrow> string" where
  "csvField v =
     (let escaped = doubleQuotes v
      in if str_includes escaped '','' \<or> str_includes escaped [dquote]
            \<or> str_includes escaped [newline]
         then [dquote] @ escaped @ [dquote] else escaped)"

text \<open>\<open>f || d\<close> on a string field and \<open>String(n || '')\<close> on a number field.\<close>

definition strOr :: "string js \<Rightarrow> string \<Rightarrow> string" where
  "strOr f d = (case f of Val s \<Rightarrow> (if s \<noteq> [] then s else d) | Null \<Rightarrow> d | Undefined \<Rightarrow> d)"

definition numOrEmpty :: "int js \<Rightarrow> string" where
  "numOrEmpty f = (case f of Val n \<Rightarrow> (if n \<noteq> 0 then showInt n else []) | Null \<Rightarrow> [] | Undefined \<Rightarrow> [])"

definition exportHeaders :: "string list" where
  "exportHeaders = [''Title'', ''Agency'', ''Category'', ''Funding Type'', ''Min Award'',
     ''Max Award'', ''Total Funding'', ''Close Date'', ''Posted Date'', ''CFDA Number'',
     ''Opportunity Number'', ''Cost Sharing'', ''Expected Awards'', ''Contact Email'', ''URL'']"

definition exportValues :: "grant \<Rightarrow> string list" where
  "exportValues g =
     [strOf (g_title g), strOf (g_agency g), strOf (g_category g),
      strOr (g_funding_instrument g) ''Grant'', numOrEmpty (g_award_floor g),
      numOrEmpty (g_award_ceiling g), numOrEmpty (g_total_funding g),
      strOr (g_close_date g) [], strOr (g_posted_date g) [], strOr (g_cfda_number g) [],
      strOr (g_opportunity_number g) [],
      (if truthyBool (g_cost_sharing g) then ''Yes'' else ''No''),
      numOrEmpty (g_expected_awards g), strOr (g_contact_email g) [], strOr (g_url g) []]"

definition csvContent :: "grant list \<Rightarrow> string" where
  "csvContent gs =
     joinWith [newline]
       (joinWith '','' exportHeaders # map (\<lambda>g. joinWith '','' (map csvField (exportValues g))) gs)"

text \<open>
  \<open>exportResults\<close> of app.js: the alert when nothing is filtered in, the content of the
  downloaded file otherwise.
\<close>

definition exportResults :: "grantsState \<Rightarrow> grantsState \<times> string option" where
  "exportResults s =
     (if filteredGrants s = []
      then (s\<lparr>grantsAlerts := grantsAlerts s @ [''No grants to export'']\<rparr>, None)
      else (s, Some (csvContent (filteredGrants s))))"

text \<open>
  \<open>convertChallengersToCsv\<close> of the challenges tab. \<open>formatAmount\<close> is defined outside
  the sources and \<open>formatDate\<close> formats by locale: both are parameters. The description
  is not guarded.
\<close>

definition quoted :: "string \<Rightarrow> string" where
  "quoted s = [dquote] @ s @ [dquote]"

definition challengeRow ::
  "(int js \<Rightarrow> string) \<Rightarrow> (string js \<Rightarrow> string) \<Rightarrow> challenge \<Rightarrow> error + string" where
  "challengeRow formatAmount formatDate c =
     (case ch_description c of
        Val d \<Rightarrow>
          Inr (joinWith '',''
                 [quoted (strOf (ch_title c)),
                  quoted (strOf (ch_agency c)),
                  quoted (strOr (ch_challenge_type c) []),
                  quoted (strOf (ch_status c)),
                  quoted (formatAmount (ch_prize_total c)),
                  quoted (formatDate (ch_submission_deadline c)),
                  quoted (take 200 d @ ''...'')])
      | Null \<Rightarrow> Inl TypeError
      | Undefined \<Rightarrow> Inl TypeError)"

fun challengeRows ::
  "(int js \<Rightarrow> string) \<Rightarrow> (string js \<Rightarrow> string) \<Rightarrow> challenge list \<Rightarrow> error + string list" where
  "challengeRows formatAmount formatDate [] = Inr []"
| "challengeRows formatAmount formatDate (c # cs) =
     (case challengeRow formatAmount formatDate c of
        Inl e \<Rightarrow> Inl e
      | Inr row \<Rightarrow> (case challengeRows formatAmount formatDate cs of
                      Inl e \<Rightarrow> Inl e
                    | Inr rows \<Rightarrow> Inr (row # rows)))"

definition convertChallengersToCsv ::
  "(int js \<Rightarrow> string) \<Rightarrow> (string js \<Rightarrow> string) \<Rightarrow> challenge list \<Rightarrow> error + string" where
  "convertChallengersToCsv formatAmount formatDate challenges =
     (let headers = [''Title'', ''Agency'', ''Type'', ''Status'', ''Prize Amount'', ''Deadline'',
                     ''Description'']
      in case challengeRows formatAmount formatDate challenges of
           Inl e \<Rightarrow> Inl e
         | Inr rows \<Rightarrow> Inr (joinWith [newline] (joinWith '','' headers # rows)))"


section \<open>Predicates used in the statements\<close>

text \<open>A company that has a name, and one whose name is the given one up to case.\<close>

definition hasFirmName :: "company \<Rightarrow> bool" where
  "hasFirmName c = (case co_firm_name c of Val f \<Rightarrow> True | Null \<Rightarrow> False | Undefined \<Rightarrow> False)"

definition firmNameMatches :: "string \<Rightarrow> company \<Rightarrow> bool" where
  "firmNameMatches companyName c =
     (case co_firm_name c of
        Val f \<Rightarrow> toLowerCase f = toLowerCase companyName
      | Null \<Rightarrow> False
      | Undefined \<Rightarrow> False)"

text \<open>The number of pages of a filtered list: \<open>Math.ceil(length / itemsPerPage)\<close>.\<close>

definition totalPages :: "'a list \<Rightarrow> int" where
  "totalPages xs = ceilDiv (int (length xs)) 20"

text \<open>A character that makes \<open>exportResults\<close> wrap a field in quotes.\<close>

definition needsQuoting :: "char \<Rightarrow> bool" where
  "needsQuoting c = (c = CHR '','' \<or> c = dquote \<or> c = newline)"


section \<open>Example records\<close>

definition grant50k :: grant where
  "grant50k = emptyGrant\<lparr>g_id := Val ''G-1'', g_title := Val ''Rural Broadband'', g_award_ceiling := Val 50000\<rparr>"

definition grant150k :: grant where
  "grant150k = emptyGrant\<lparr>g_id := Val ''G-2'', g_title := Val ''Water Systems'', g_award_ceiling := Val 150000\<rparr>"

definition grantNoCeiling :: grant where
  "grantNoCeiling = emptyGrant\<lparr>g_id := Val ''G-3'', g_title := Val ''Arts Education'', g_award_ceiling := Null\<rparr>"

definition grantApril :: grant where
  "grantApril = emptyGrant\<lparr>g_id := Val ''G-4'', g_close_date := Val ''2025-04-15''\<rparr>"

definition grantMarch :: grant where
  "grantMarch = emptyGrant\<lparr>g_id := Val ''G-5'', g_close_date := Val ''2025-03-01''\<rparr>"

definition grantNoDate :: grant where
  "grantNoDate = emptyGrant\<lparr>g_id := Val ''G-6''\<rparr>"

definition grantRolling :: grant where
  "grantRolling = emptyGrant\<lparr>g_id := Val ''G-7'', g_close_date := Val ''Rolling''\<rparr>"

definition grantNasa :: grant where
  "grantNasa = emptyGrant\<lparr>g_id := Val ''G-8'', g_agency := Val ''NASA''\<rparr>"

definition grantBlankAgency :: grant where
  "grantBlankAgency = emptyGrant\<lparr>g_id := Val ''G-9'', g_agency := Val []\<rparr>"

definition nofaEnergy :: nofa where
  "nofaEnergy = emptyNofa\<lparr>nf_id := Val ''fr_energy'', nf_title := Val ''Clean Energy Innovation'',
     nf_agency := Val ''Department of Energy'', nf_publication_date := Val ''2025-02-15''\<rparr>"

definition nofaTreasury :: nofa where
  "nofaTreasury = emptyNofa\<lparr>nf_id := Val ''fr_cdfi'', nf_title := Val ''CDFI Program'',
     nf_agency := Val ''Department of the Treasury''\<rparr>"

definition nofaIdOnly :: nofa where
  "nofaIdOnly = emptyNofa\<lparr>nf_id := Val ''fr_bare'', nf_funding_amount := Val 1000000\<rparr>"

definition companyNoName :: company where
  "companyNoName = emptyCompany\<lparr>co_id := Val ''company_x'', co_state := Val ''TX''\<rparr>"

definition companyTechCorp :: company where
  "companyTechCorp = emptyCompany\<lparr>co_id := Val ''company_techcorp'',
     co_firm_name := Val ''TechCorp Innovations'', co_location := Val ''Austin, TX''\<rparr>"

definition companyBioMed :: company where
  "companyBioMed = emptyCompany\<lparr>co_id := Val ''company_biomed'',
     co_firm_name := Val ''BioMed Solutions LLC'', co_location := Val ''Boston, MA''\<rparr>"

definition companyNoFunding :: company where
  "companyNoFunding = emptyCompany\<lparr>co_id := Val ''company_new'',
     co_firm_name := Val ''Newcomer Labs'', co_total_funding := Null\<rparr>"

definition sbirWith :: "company list \<Rightarrow> sbirState" where
  "sbirWith cs = loadedSbir \<lparr>awards = [], companies = cs, solicitations = []\<rparr>"

definition challengeQuoted :: challenge where
  "challengeQuoted = emptyChallenge\<lparr>ch_id := Val ''c-1'',
     ch_title := Val (''The '' @ [dquote] @ ''Big'' @ [dquote] @ '' Prize''),
     ch_agency := Val ''NASA'', ch_status := Val ''Active'', ch_prize_total := Val 1000,
     ch_description := Val ''Open call''\<rparr>"

definition loadedChallenges :: "challenge list \<Rightarrow> challengeState" where
  "loadedChallenges cs = \<lparr>challengesData = cs, filteredChallenges = cs,
     currentChallengePage = 1, challengeDom = emptyDom\<rparr>"


section \<open>Basic facts\<close>

lemma str_includes_empty: "str_includes s [] = True"
  by (cases s) simp_all

lemma str_includes_single: "str_includes s [c] = (c \<in> set s)"
  by (induction s) auto

lemma startsWith_iff: "startsWith s t = (\<exists>q. s = t @ q)"
  by (induction s t rule: startsWith.induct) auto

lemma str_includes_iff: "str_includes s t = (\<exists>p q. s = p @ t @ q)"
proof (induction s)
  case Nil
  then show ?case by auto
next
  case (Cons c cs)
  show ?case
  proof
    assume "str_includes (c # cs) t"
    then consider "startsWith (c # cs) t" | "str_includes cs t"
      by auto
    then show "\<exists>p q. c # cs = p @ t @ q"
    proof cases
      case 1
      then obtain q where "c # cs = t @ q"
        by (auto simp: startsWith_iff)
      then have "c # cs = [] @ t @ q" by simp
      then show ?thesis by blast
    next
      case 2
      then obtain p q where "cs = p @ t @ q"
        using Cons.IH by auto
      then have "c # cs = (c # p) @ t @ q" by simp
      then show ?thesis by blast
    qed
  next
    assume "\<exists>p q. c # cs = p @ t @ q"
    then obtain p q where pq: "c # cs = p @ t @ q"
      by blast
    show "str_includes (c # cs) t"
    proof (cases p)
      case Nil
      then have "startsWith (c # cs) t"
        using pq by (auto simp: startsWith_iff)
      then show ?thesis by simp
    next
      case (Cons a p')
      then have "cs = p' @ t @ q"
        using pq by simp
      then have "str_includes cs t"
        using Cons.IH by blast
      then show ?thesis by simp
    qed
  qed
qed

lemma str_includes_trim: "str_includes s (trim s)"
proof -
  let ?d = "dropWhile isSpace s"
  let ?e = "rev (takeWhile isSpace (rev ?d))"
  have "trim s @ ?e = rev (takeWhile isSpace (rev ?d) @ dropWhile isSpace (rev ?d))"
    by (simp only: trim_def rev_append)
  also have "\<dots> = rev (rev ?d)"
    by (simp only: takeWhile_dropWhile_id)
  also have "\<dots> = ?d"
    by simp
  finally have d: "?d = trim s @ ?e"
    by simp
  have "s = takeWhile isSpace s @ ?d"
    by simp
  then have "s = takeWhile isSpace s @ trim s @ ?e"
    using d by simp
  then show ?thesis
    unfolding str_includes_iff by blast
qed

lemma filterE_set:
  "filterE p xs = Inr ys \<Longrightarrow> set ys = {x \<in> set xs. p x = Inr True}"
proof (induction xs arbitrary: ys)
  case Nil
  then show ?case by simp
next
  case (Cons x xs)
  from Cons.prems obtain b zs where b: "p x = Inr b" and zs: "filterE p xs = Inr zs"
    and ys: "ys = (if b then x # zs else zs)"
    by (simp split: sum.splits)
  have "set zs = {x \<in> set xs. p x = Inr True}"
    using zs by (rule Cons.IH)
  then show ?case
    using b ys by (cases b) auto
qed

lemma relIndex_nonneg:
  "0 \<le> i \<Longrightarrow> relIndex len i = nat (min i len)"
  by (simp add: relIndex_def)

lemma slice_page:
  assumes "1 \<le> n" and "0 < p"
  shows "slice xs ((n - 1) * p) ((n - 1) * p + p) = take (nat p) (drop (nat ((n - 1) * p)) xs)"
proof -
  let ?st = "(n - 1) * p"
  have st: "0 \<le> ?st" using assms by simp
  then have en: "0 \<le> ?st + p" using assms by linarith
  have k: "relIndex (int (length xs)) ?st = nat (min ?st (int (length xs)))"
    using st by (rule relIndex_nonneg)
  have f: "relIndex (int (length xs)) (?st + p) = nat (min (?st + p) (int (length xs)))"
    using en by (rule relIndex_nonneg)
  show ?thesis
  proof (cases "?st \<le> int (length xs)")
    case inside: True
    then have k': "nat (min ?st (int (length xs))) = nat ?st"
      by (simp add: min_def)
    have "take (nat (min (?st + p) (int (length xs))) - nat ?st) (drop (nat ?st) xs)
          = take (nat p) (drop (nat ?st) xs)"
    proof (cases "?st + p \<le> int (length xs)")
      case True
      then have "nat (min (?st + p) (int (length xs))) - nat ?st = nat p"
        using st assms by (simp add: min_def nat_diff_distrib' nat_add_distrib)
      then show ?thesis by simp
    next
      case False
      then have "nat (min (?st + p) (int (length xs))) - nat ?st = length (drop (nat ?st) xs)"
        using st assms by (simp add: min_def)
      moreover have "length (drop (nat ?st) xs) \<le> nat p"
        using False st assms by simp
      ultimately show ?thesis by simp
    qed
    then show ?thesis
      by (simp add: slice_def Let_def k f k')
  next
    case False
    then have k': "nat (min ?st (int (length xs))) = length xs"
      by (simp add: min_def)
    have "drop (nat ?st) xs = []" using False by simp
    then show ?thesis
      by (simp add: slice_def Let_def k k')
  qed
qed

lemma ceil_below:
  "- q < n \<Longrightarrow> - l = 20 * q + r \<Longrightarrow> 0 \<le> r \<Longrightarrow> r < 20 \<Longrightarrow> l \<le> (n - 1) * (20::int)"
  by arith

lemma ceil_above:
  "l \<le> (n - 1) * (20::int) \<Longrightarrow> - l = 20 * q + r \<Longrightarrow> 0 \<le> r \<Longrightarrow> r < 20 \<Longrightarrow> - q < n"
  by arith

lemma ceilDiv_less_iff:
  "(ceilDiv l 20 < n) = (l \<le> (n - 1) * 20)"
proof -
  define q where "q = (- l) div 20"
  define r where "r = (- l) mod 20"
  have eq: "- l = 20 * q + r"
    by (simp add: q_def r_def)
  have r: "0 \<le> r" "r < 20"
    by (simp_all add: r_def)
  have "(ceilDiv l 20 < n) = (- q < n)"
    by (simp add: ceilDiv_def q_def)
  also have "(- q < n) = (l \<le> (n - 1) * 20)"
    using ceil_below[OF _ eq r] ceil_above[OF _ eq r] by blast
  finally show ?thesis .
qed

lemma page_empty_iff:
  assumes "1 \<le> n"
  shows "(take 20 (drop (nat ((n - 1) * 20)) xs) = []) = (ceilDiv (int (length xs)) 20 < n)"
proof -
  have "(take 20 (drop (nat ((n - 1) * 20)) xs) = []) = (length xs \<le> nat ((n - 1) * 20))"
    by (simp add: take_eq_Nil)
  also have "\<dots> = (int (length xs) \<le> (n - 1) * 20)"
    using assms by (simp add: le_nat_iff)
  also have "\<dots> = (ceilDiv (int (length xs)) 20 < n)"
    by (simp only: ceilDiv_less_iff)
  finally show ?thesis .
qed

lemma chMatchesPrize_falsy:
  "\<not> truthyNum (ch_prize_total c) \<Longrightarrow> chMatchesPrize prizeFilter c"
  by (cases "ch_prize_total c") (simp_all add: chMatchesPrize_def)

lemma isoDate_2099: "isoDate ''2099-12-31'' = Some 4102358400000"
  by (simp add: isoDate_def digitVal_def daysInMonth_def isLeap_def daysFromCivil_def msPerDay_def)

lemma isoDate_april: "isoDate ''2025-04-15'' = Some 1744675200000"
  by (simp add: isoDate_def digitVal_def daysInMonth_def isLeap_def daysFromCivil_def msPerDay_def)

lemma isoDate_march: "isoDate ''2025-03-01'' = Some 1740787200000"
  by (simp add: isoDate_def digitVal_def daysInMonth_def isLeap_def daysFromCivil_def msPerDay_def)

lemma isoDate_february: "isoDate ''2025-02-15'' = Some 1739577600000"
  by (simp add: isoDate_def digitVal_def daysInMonth_def isLeap_def daysFromCivil_def msPerDay_def)

lemma isoDate_rolling: "isoDate ''Rolling'' = None"
  by (simp add: isoDate_def)


section \<open>Recomputation of the filtered result\<close>

text \<open>
  In app.js every control runs \<open>filterGrants\<close>, which filters the loaded collection
  anew: the result depends on the collection and the controls only, so a filter set and
  then emptied again leaves what the untouched controls give.
\<close>

lemma filterGrants_from_full:
  "set (filteredGrants (filterGrants parse today s)) \<subseteq> set (grantsData s) \<and>
   grantsData (filterGrants parse today s) = grantsData s \<and>
   filterGrants parse today (s\<lparr>filteredGrants := fg, currentPage := p\<rparr>) = filterGrants parse today s"
  by (auto simp: filterGrants_def Let_def)

lemma grants_empty_filter_identity:
  assumes "grantsDom s elementId = []"
  shows "filteredGrants (grantsSetControl parse today elementId []
           (grantsSetControl parse today elementId v s))
         = filteredGrants (filterGrants parse today s)"
proof -
  have "(grantsDom s)(elementId := []) = grantsDom s"
    using assms by (simp add: fun_upd_idem_iff)
  then show ?thesis
    by (simp add: grantsSetControl_def filterGrants_def Let_def)
qed

text \<open>The NOFAs filters only ever remove records from the list they find.\<close>

lemma set_filterIf: "set (filterIf v p data) \<subseteq> set data"
  by (simp add: filterIf_def)

lemma nofas_applyFilters_narrows:
  "set (nofasFilteredData (nofas_applyFilters parse now s)) \<subseteq> set (nofasFilteredData s)"
proof -
  define d where "d = nofasDom s"
  define data1 where
    "data1 = filterIf (d ''nofas-filter-agency'')
               (\<lambda>n. nf_agency n = Val (d ''nofas-filter-agency'')) (nofasFilteredData s)"
  define data2 where
    "data2 = (if d ''nofas-filter-date'' \<noteq> []
              then (case cutoffDate now (d ''nofas-filter-date'') of
                      Some cutoff \<Rightarrow> filter (publishedSince parse cutoff) data1
                    | None \<Rightarrow> data1)
              else data1)"
  define data3 where
    "data3 = filterIf (d ''nofas-filter-funding'')
               (\<lambda>n. nofas_matchesFundingRange (nf_funding_amount n) (d ''nofas-filter-funding'')) data2"
  define data4 where
    "data4 = filterIf (d ''nofas-filter-deadline'')
               (\<lambda>n. matchesDeadlineFilter (nf_application_deadline n) (d ''nofas-filter-deadline'')) data3"
  define data5 where
    "data5 = filterIf (d ''nofas-filter-significant'')
               (\<lambda>n. nf_significant n = Val (d ''nofas-filter-significant'' = ''true'')) data4"
  define data6 where
    "data6 = filterIf (trim (d ''nofas-filter-docket''))
               (\<lambda>n. optIncludes (nf_docket_id n) (toLowerCase (trim (d ''nofas-filter-docket'')))) data5"
  have result: "nofasFilteredData (nofas_applyFilters parse now s) = data6"
    unfolding nofas_applyFilters_def Let_def d_def data1_def data2_def data3_def data4_def
          data5_def data6_def
    by simp
  have "set data1 \<subseteq> set (nofasFilteredData s)"
    unfolding data1_def by (rule set_filterIf)
  moreover have "set data2 \<subseteq> set data1"
    unfolding data2_def by (cases "cutoffDate now (d ''nofas-filter-date'')") auto
  moreover have "set data3 \<subseteq> set data2"
    unfolding data3_def by (rule set_filterIf)
  moreover have "set data4 \<subseteq> set data3"
    unfolding data4_def by (rule set_filterIf)
  moreover have "set data5 \<subseteq> set data4"
    unfolding data5_def by (rule set_filterIf)
  moreover have "set data6 \<subseteq> set data5"
    unfolding data6_def by (rule set_filterIf)
  ultimately show ?thesis
    unfolding result by blast
qed

text \<open>
  Claim C1. Recomputation after a filter change starts from the full collection, so that
  a filter set to a value and set back to empty gives the filtered records of never
  having set it. The NOFAs manager does not: \<open>applyFilters\<close>, which the filter grid runs
  on every change, starts from the previous filtered list. With two loaded NOFAs of
  different agencies, choosing one agency and then "all agencies" again leaves one
  record, where the untouched page shows two.
\<close>

theorem nofas_filter_reset_keeps_narrowed_list:
  "nofasFilteredData
     (nofasSetFilter parse now ''nofas-filter-agency'' []
        (nofasSetFilter parse now ''nofas-filter-agency'' ''Department of Energy''
           (loadedNofas [nofaEnergy, nofaTreasury])))
   = [nofaEnergy]
   \<and> nofasFilteredData (loadedNofas [nofaEnergy, nofaTreasury]) = [nofaEnergy, nofaTreasury]
   \<and> nofasFilteredData
       (nofasSetFilter parse now ''nofas-filter-agency'' [] (loadedNofas [nofaEnergy, nofaTreasury]))
     = [nofaEnergy, nofaTreasury]"
  by (simp add: nofasSetFilter_def nofas_applyFilters_def loadedNofas_def emptyDom_def filterIf_def
        trim_def nofaEnergy_def nofaTreasury_def emptyNofa_def Let_def)


section \<open>Funding buckets and missing amounts\<close>

lemma matchesFundingRange_missing:
  "\<not> truthyNum (g_award_ceiling g) \<Longrightarrow> matchesFundingRange g r = (r = ''unspecified'')"
  by (cases "g_award_ceiling g") (simp_all add: matchesFundingRange_def)

lemma nofas_matchesFundingRange_missing:
  "\<not> truthyNum amount \<Longrightarrow> nofas_matchesFundingRange amount r = (r = ''unspecified'')"
  by (cases amount) (simp_all add: nofas_matchesFundingRange_def)

lemma sbir_matchesFundingRange_missing:
  "\<not> truthyNum amount \<Longrightarrow> sbir_matchesFundingRange amount r = (r = ''under-500k'')"
  by (cases amount) (simp_all add: sbir_matchesFundingRange_def)

lemma funding_scenario_under_100k:
  "filteredGrants (grantsSetControl parse today ''filter-funding'' ''under-100k''
     (loadedGrants [grant50k, grant150k, grantNoCeiling])) = [grant50k]"
  by (simp add: grantsSetControl_def filterGrants_def loadedGrants_def emptyDom_def grantKept_def
       readControls_def matchesFundingRange_def grant50k_def grant150k_def grantNoCeiling_def emptyGrant_def
       toLowerCase_def)

lemma funding_scenario_unspecified:
  "filteredGrants (grantsSetControl parse today ''filter-funding'' ''unspecified''
     (loadedGrants [grant50k, grant150k, grantNoCeiling])) = [grantNoCeiling]"
  by (simp add: grantsSetControl_def filterGrants_def loadedGrants_def emptyDom_def grantKept_def
       readControls_def matchesFundingRange_def grant50k_def grant150k_def grantNoCeiling_def emptyGrant_def
       toLowerCase_def)

text \<open>
  Claim C2, as stated: a record whose funding field is missing satisfies only the
  "unspecified" bucket and never a bounded one. The SBIR companies filter has no
  "unspecified" bucket: a company whose \<open>total_funding\<close> is null satisfies the bounded
  bucket "under-500k" and stays in the filtered list under it.
\<close>

theorem sbir_missing_funding_in_bounded_bucket:
  "sbir_matchesFundingRange (co_total_funding companyNoFunding) ''under-500k'' \<and>
   co_total_funding companyNoFunding = Null \<and>
   applyCompanyFilters (emptyDom(''sbir-companies-filter-funding'' := ''under-500k''))
     [companyNoFunding] = [companyNoFunding]"
  by (simp add: sbir_matchesFundingRange_def companyNoFunding_def emptyCompany_def
        applyCompanyFilters_def filterIf_def emptyDom_def)

text \<open>
  Claim C2, amended. In the grants and the NOFAs collections a record whose funding
  field is missing (absent, null or 0) satisfies the funding predicate exactly for the
  "unspecified" bucket; in the SBIR companies collection, which has no such bucket, it
  satisfies the predicate exactly for "under-500k". For grants with award ceilings
  50000, 150000 and null, the filter "under-100k" yields the 50000 record only and
  "unspecified" yields the null record only.
\<close>

theorem missing_funding_bucket:
  "(matchesFundingRange (g\<lparr>g_award_ceiling := Undefined\<rparr>) r = (r = ''unspecified''))
   \<and> (matchesFundingRange (g\<lparr>g_award_ceiling := Null\<rparr>) r = (r = ''unspecified''))
   \<and> (matchesFundingRange (g\<lparr>g_award_ceiling := Val 0\<rparr>) r = (r = ''unspecified''))
   \<and> (nofas_matchesFundingRange Undefined r = (r = ''unspecified''))
   \<and> (nofas_matchesFundingRange Null r = (r = ''unspecified''))
   \<and> (nofas_matchesFundingRange (Val 0) r = (r = ''unspecified''))
   \<and> (sbir_matchesFundingRange Undefined r = (r = ''under-500k''))
   \<and> (sbir_matchesFundingRange Null r = (r = ''under-500k''))
   \<and> (sbir_matchesFundingRange (Val 0) r = (r = ''under-500k''))
   \<and> filteredGrants (grantsSetControl parse today ''filter-funding'' ''under-100k''
        (loadedGrants [grant50k, grant150k, grantNoCeiling])) = [grant50k]
   \<and> filteredGrants (grantsSetControl parse today ''filter-funding'' ''unspecified''
        (loadedGrants [grant50k, grant150k, grantNoCeiling])) = [grantNoCeiling]"
  by (simp add: matchesFundingRange_missing nofas_matchesFundingRange_missing
        sbir_matchesFundingRange_missing funding_scenario_under_100k
        funding_scenario_unspecified)


section \<open>The search stage\<close>

text \<open>
  In app.js and in the challenges tab an empty search term skips the search: the
  callbacks test the term first.
\<close>

lemma grants_empty_search_keeps:
  "grantKept parse today (readControls emptyDom) g"
  by (simp add: grantKept_def readControls_def emptyDom_def toLowerCase_def)

lemma challenges_empty_search_keeps:
  "challengeKept [] [] [] [] [] c = Inr True"
  by (simp add: challengeKept_def chMatchesSearch_def chMatchesPrize_def split: js.splits)

text \<open>
  In the SBIR and NOFAs managers the search has no such test: a record passes an empty
  term exactly when one of its searchable fields is a string.
\<close>

lemma optIncludes_empty:
  "optIncludes f [] = (case f of Val s \<Rightarrow> True | Null \<Rightarrow> False | Undefined \<Rightarrow> False)"
  by (simp add: optIncludes_def str_includes_empty split: js.splits)

lemma company_empty_search:
  "companyMatchesSearch [] c =
     ((\<exists>s. co_firm_name c = Val s) \<or> (\<exists>s. co_location c = Val s))"
  by (auto simp: companyMatchesSearch_def optIncludes_empty split: js.splits)

text \<open>
  Claim C3. With an empty search term the search stage includes every record, whichever
  searchable fields are present. \<open>performSearch\<close> of the NOFAs and SBIR managers does not
  test for the empty term and relies on \<open>includes('')\<close> of a present field: a NOFA with
  none of title, agency, abstract, keywords and document number, and a company with
  neither name nor location, are dropped by the empty search.
\<close>

theorem empty_search_drops_record_without_searchable_fields:
  "nofasFilteredData (nofasSetSearch parse now [] (loadedNofas [nofaEnergy, nofaIdOnly]))
     = [nofaEnergy]
   \<and> companies (sbirFilteredData (sbir_performSearch Companies (sbirWith [companyNoName, companyTechCorp])))
     = [companyTechCorp]"
  by (simp add: nofasSetSearch_def nofas_performSearch_def nofas_applyFilters_def loadedNofas_def
        emptyDom_def filterIf_def trim_def emptyNofa_def nofaEnergy_def nofaIdOnly_def Let_def
        nofaMatchesSearch_def optIncludes_def keywordsInclude_def toLowerCase_def
        sbir_performSearch_def sbir_applyFilters_def loadedSbir_def sbirWith_def
        emptyCompany_def companyNoName_def companyTechCorp_def companyMatchesSearch_def
        applyCompanyFilters_def sbirSearchInputId_def)


section \<open>Pages\<close>

text \<open>
  Claim C5, as stated: \<open>setPage(n)\<close> clamps the page to
  \<open>[1, ceil(totalCount/pageSize)]\<close>. \<open>changePage\<close> stores its argument: with one filtered
  challenge, hence one page, \<open>changePage(7)\<close> leaves the page at 7.
\<close>

theorem changePage_not_clamped:
  "currentChallengePage (changePage 7 (loadedChallenges [challengeQuoted])) = 7 \<and>
   totalPages (filteredChallenges (changePage 7 (loadedChallenges [challengeQuoted]))) = 1 \<and>
   \<not> (1 \<le> currentChallengePage (changePage 7 (loadedChallenges [challengeQuoted])) \<and>
      currentChallengePage (changePage 7 (loadedChallenges [challengeQuoted]))
        \<le> totalPages (filteredChallenges (changePage 7 (loadedChallenges [challengeQuoted]))))"
  by (simp add: changePage_def loadedChallenges_def totalPages_def ceilDiv_def)

text \<open>
  Claim C5, amended. \<open>changePage(n)\<close> sets the page to \<open>n\<close> itself, with no clamping, in
  the challenges tab and in the SBIR and NOFAs managers: the page is within
  \<open>[1, ceil(totalCount/pageSize)]\<close> exactly when \<open>n\<close> is. It leaves the loaded and the
  filtered records unchanged.
\<close>

theorem changePage_stores_page:
  "currentChallengePage (changePage n s) = n
   \<and> filteredChallenges (changePage n s) = filteredChallenges s
   \<and> challengesData (changePage n s) = challengesData s
   \<and> ((1 \<le> currentChallengePage (changePage n s)
        \<and> currentChallengePage (changePage n s) \<le> totalPages (filteredChallenges (changePage n s)))
       = (1 \<le> n \<and> n \<le> totalPages (filteredChallenges s)))
   \<and> sbirCurrentPage (sbir_changePage type n ss) type = n
   \<and> sbirFilteredData (sbir_changePage type n ss) = sbirFilteredData ss
   \<and> sbirData (sbir_changePage type n ss) = sbirData ss
   \<and> nofasCurrentPage (nofas_changePage n ns) = n
   \<and> nofasFilteredData (nofas_changePage n ns) = nofasFilteredData ns
   \<and> nofasData (nofas_changePage n ns) = nofasData ns"
  by (simp add: changePage_def sbir_changePage_def nofas_changePage_def)

text \<open>
  Claim C10. Computing the page window is total: for every filtered list and every page
  number \<open>n \<ge> 1\<close> the slice from \<open>(n-1)*pageSize\<close> to \<open>n*pageSize\<close> is the list of the
  records at these positions, at most a page long, and it is the empty list exactly when
  \<open>n\<close> exceeds \<open>ceil(totalCount/pageSize)\<close>. This holds for \<open>updateTable\<close> of app.js and
  for \<open>displayData\<close> of the SBIR manager.
\<close>

theorem page_window_total:
  assumes "1 \<le> n"
  shows "pageGrants (s\<lparr>currentPage := n\<rparr>) = take 20 (drop (nat ((n - 1) * 20)) (filteredGrants s))
   \<and> length (pageGrants (s\<lparr>currentPage := n\<rparr>)) \<le> 20
   \<and> (pageGrants (s\<lparr>currentPage := n\<rparr>) = []) = (totalPages (filteredGrants s) < n)
   \<and> sbirPageData n xs = take 20 (drop (nat ((n - 1) * 20)) xs)
   \<and> length (sbirPageData n xs) \<le> 20
   \<and> (sbirPageData n xs = []) = (totalPages xs < n)"
proof -
  have window: "slice ys ((n - 1) * 20) ((n - 1) * 20 + 20) = take 20 (drop (nat ((n - 1) * 20)) ys)"
    for ys :: "'b list"
    using slice_page[OF assms, of 20 ys] by simp
  have g: "pageGrants (s\<lparr>currentPage := n\<rparr>) = take 20 (drop (nat ((n - 1) * 20)) (filteredGrants s))"
    using window[of "filteredGrants s"] by (simp add: pageGrants_def itemsPerPage_def Let_def)
  have b: "sbirPageData n xs = take 20 (drop (nat ((n - 1) * 20)) xs)"
    using window[of xs] by (simp add: sbirPageData_def sbirItemsPerPage_def Let_def)
  have ge: "(take 20 (drop (nat ((n - 1) * 20)) (filteredGrants s)) = []) = (totalPages (filteredGrants s) < n)"
    unfolding totalPages_def using assms by (rule page_empty_iff)
  have be: "(take 20 (drop (nat ((n - 1) * 20)) xs) = []) = (totalPages xs < n)"
    unfolding totalPages_def using assms by (rule page_empty_iff)
  show ?thesis
    unfolding g b using ge be by simp
qed

theorem page_window_total_witness:
  "(1::int) \<le> 2
   \<and> pageGrants ((loadedGrants [grant50k, grant150k, grantNoCeiling])\<lparr>currentPage := 2\<rparr>) = []
   \<and> totalPages [grant50k, grant150k, grantNoCeiling] = 1
   \<and> sbirPageData 1 [companyTechCorp, companyBioMed] = [companyTechCorp, companyBioMed]"
proof -
  have two: "(1::int) \<le> 2" and one: "(1::int) \<le> 1"
    by simp_all
  have pages: "totalPages [grant50k, grant150k, grantNoCeiling] = 1"
    by (simp add: totalPages_def ceilDiv_def)
  show ?thesis
    using page_window_total[OF two, of "loadedGrants [grant50k, grant150k, grantNoCeiling]" "[]::company list"]
          page_window_total[OF one, of "loadedGrants []" "[companyTechCorp, companyBioMed]"]
          pages
    by (simp add: loadedGrants_def)
qed


section \<open>Sorting by a date column\<close>

text \<open>
  A comparator that orders by an integer key makes the stable insertion the stable
  sort by that key.
\<close>

lemma insertWith_insort_key:
  assumes "\<And>y. y \<in> set ys \<Longrightarrow> comparesAfter (cmp x y) = (key x > key y)"
  shows "insertWith cmp x ys = insort_key key x ys"
  using assms by (induction ys) (auto simp: not_less)

lemma sortWith_sort_key:
  fixes key :: "'a \<Rightarrow> int"
  assumes "\<And>x y. x \<in> set xs \<Longrightarrow> y \<in> set xs \<Longrightarrow> comparesAfter (cmp x y) = (key x > key y)"
  shows "sortWith cmp xs = sort_key key xs"
  using assms
proof (induction xs)
  case Nil
  then show ?case by (simp add: sortWith_def)
next
  case (Cons x xs)
  have ih: "sortWith cmp xs = sort_key key xs"
    using Cons by simp
  have "insertWith cmp x (sort_key key xs) = insort_key key x (sort_key key xs)"
    by (rule insertWith_insort_key) (simp add: Cons.prems)
  then show ?case
    using ih by (simp add: sortWith_def)
qed

lemma compareGrants_date:
  assumes "column = ''close_date'' \<or> column = ''posted_date''"
    and "grantDateParses parse column a" and "grantDateParses parse column b"
  shows "comparesAfter (compareGrants parse column ''asc'' a b)
         = (grantDateTime parse column a > grantDateTime parse column b)"
proof -
  from assms(2) obtain ta where ta: "grantDateKey parse column a = Some ta"
    by (auto simp: grantDateParses_def)
  from assms(3) obtain tb where tb: "grantDateKey parse column b = Some tb"
    by (auto simp: grantDateParses_def)
  have "compareGrants parse column ''asc'' a b = Some (ta - tb)"
    using assms(1) ta tb
    by (auto simp: compareGrants_def grantDateKey_def jsMinus_def Let_def)
  then show ?thesis
    by (simp add: comparesAfter_def grantDateTime_def ta tb)
qed

lemma compareNofas_date:
  assumes "str_includes column ''date''"
    and "nofaDateParses parse column a" and "nofaDateParses parse column b"
  shows "comparesAfter (compareNofas parse column a b)
         = (nofaDateTime parse column a > nofaDateTime parse column b)"
proof -
  from assms(2) obtain ta where ta: "nofaDateKey parse column a = Some ta"
    by (auto simp: nofaDateParses_def)
  from assms(3) obtain tb where tb: "nofaDateKey parse column b = Some tb"
    by (auto simp: nofaDateParses_def)
  have a: "nofaSortVal parse column a = DateVal (Some ta)"
    using assms(1) ta by (simp add: nofaSortVal_def nofaDateKey_def Let_def)
  have b: "nofaSortVal parse column b = DateVal (Some tb)"
    using assms(1) tb by (simp add: nofaSortVal_def nofaDateKey_def Let_def)
  show ?thesis
    by (simp add: compareNofas_def a b numLess_def comparesAfter_def nofaDateTime_def ta tb)
qed

lemma sortTable_date_sort_key:
  assumes col: "column = ''close_date'' \<or> column = ''posted_date''"
    and fresh: "sortColumn s \<noteq> column"
    and parses: "list_all (grantDateParses parse column) (filteredGrants s)"
  shows "filteredGrants (sortTable parse column s)
         = sort_key (grantDateTime parse column) (filteredGrants s)"
proof -
  have "sortWith (compareGrants parse column ''asc'') (filteredGrants s)
        = sort_key (grantDateTime parse column) (filteredGrants s)"
  proof (rule sortWith_sort_key)
    fix x y
    assume "x \<in> set (filteredGrants s)" and "y \<in> set (filteredGrants s)"
    then have "grantDateParses parse column x" and "grantDateParses parse column y"
      using parses by (simp_all add: list_all_iff)
    then show "comparesAfter (compareGrants parse column ''asc'' x y)
               = (grantDateTime parse column x > grantDateTime parse column y)"
      using col by (rule compareGrants_date[rotated])
  qed
  then show ?thesis
    using fresh by (simp add: sortTable_def)
qed

lemma nofas_sortTable_date_sort_key:
  assumes col: "str_includes column ''date''"
    and parses: "list_all (nofaDateParses parse column) (nofasFilteredData s)"
  shows "nofasFilteredData (nofas_sortTable parse column s)
         = sort_key (nofaDateTime parse column) (nofasFilteredData s)"
proof -
  have "sortWith (compareNofas parse column) (nofasFilteredData s)
        = sort_key (nofaDateTime parse column) (nofasFilteredData s)"
  proof (rule sortWith_sort_key)
    fix x y
    assume "x \<in> set (nofasFilteredData s)" and "y \<in> set (nofasFilteredData s)"
    then have "nofaDateParses parse column x" and "nofaDateParses parse column y"
      using parses by (simp_all add: list_all_iff)
    then show "comparesAfter (compareNofas parse column x y)
               = (nofaDateTime parse column x > nofaDateTime parse column y)"
      using col by (rule compareNofas_date[rotated])
  qed
  then show ?thesis
    by (simp add: nofas_sortTable_def)
qed

lemma grant_absent_date_key:
  "\<not> truthy (grantField g column) \<Longrightarrow> grantDateKey parse column g = parse ''2099-12-31''"
  by (cases "grantField g column") (simp_all add: grantDateKey_def nullToEmpty_def orElse_def)

lemma nofa_absent_date_key:
  "\<not> truthy (nofaField n column) \<Longrightarrow> nofaDateKey parse column n = Some 0"
  by (simp add: nofaDateKey_def orElse_def)

lemma stable_sort_properties:
  fixes key :: "'a \<Rightarrow> int"
  shows "mset (sort_key key xs) = mset xs \<and> sorted (map key (sort_key key xs))
         \<and> (\<forall>t. filter (\<lambda>x. key x = t) (sort_key key xs) = filter (\<lambda>x. key x = t) xs)"
  by (simp add: sort_key_stable)

lemmas date_examples = grantApril_def grantMarch_def grantNoDate_def grantRolling_def emptyGrant_def
  nofaEnergy_def nofaTreasury_def emptyNofa_def

lemma date_example_keys:
  "grantDateKey isoDate ''close_date'' grantApril = Some 1744675200000"
  "grantDateKey isoDate ''close_date'' grantMarch = Some 1740787200000"
  "grantDateKey isoDate ''close_date'' grantNoDate = Some 4102358400000"
  "nofaDateKey isoDate ''publication_date'' nofaEnergy = Some 1739577600000"
  "nofaDateKey isoDate ''publication_date'' nofaTreasury = Some 0"
  by (simp_all add: grantDateKey_def nofaDateKey_def grantField_def nofaField_def nullToEmpty_def
        orElse_def date_examples isoDate_april isoDate_march isoDate_2099 isoDate_february)

lemma compareGrants_date_eq:
  assumes "column = ''close_date'' \<or> column = ''posted_date''"
  shows "compareGrants parse column direction a b
         = (if direction = ''asc''
            then jsMinus (grantDateKey parse column a) (grantDateKey parse column b)
            else jsMinus (grantDateKey parse column b) (grantDateKey parse column a))"
  using assms
  by (elim disjE) (simp_all add: compareGrants_def grantDateKey_def Let_def)

lemma jsMinus_None: "a = None \<or> b = None \<Longrightarrow> jsMinus a b = None"
  by (cases a) (auto simp: jsMinus_def)

lemma compareGrants_unparsable:
  assumes "column = ''close_date'' \<or> column = ''posted_date''"
    and "grantDateKey parse column a = None \<or> grantDateKey parse column b = None"
  shows "compareGrants parse column direction a b = None"
proof -
  have "jsMinus (grantDateKey parse column a) (grantDateKey parse column b) = None"
    using assms(2) by (rule jsMinus_None)
  moreover have "jsMinus (grantDateKey parse column b) (grantDateKey parse column a) = None"
    using assms(2) by (intro jsMinus_None) (rule disj_commute[THEN iffD1])
  ultimately show ?thesis
    by (simp add: compareGrants_date_eq[OF assms(1)])
qed

text \<open>
  The NOFAs table orders by date too, always ascending, but reads an absent date as the
  time value 0: a NOFA without a publication date sorts in front of a dated one.
\<close>

lemma nofas_absent_date_sorts_first:
  "nofasFilteredData (nofas_sortTable isoDate ''publication_date'' (loadedNofas [nofaEnergy, nofaTreasury]))
     = [nofaTreasury, nofaEnergy]"
  by (simp add: nofas_sortTable_def loadedNofas_def sortWith_def compareNofas_def nofaSortVal_def
        nofaField_def orElse_def numLess_def comparesAfter_def date_examples isoDate_february)

text \<open>
  Claim C4, as stated: under a date sort key every record with an unparsable or absent
  date compares as the maximum date and sorts to the end in ascending order. In the
  grants table an unparsable close date makes the comparator return NaN, which the sort
  reads as "equal": sorted by close date, ascending, the record stays in front of a
  dated one.
\<close>

theorem date_sort_counterexample:
  "compareGrants isoDate ''close_date'' ''asc'' grantRolling grantApril = None \<and>
   compareGrants isoDate ''close_date'' ''asc'' grantApril grantRolling = None \<and>
   sortDirection (sortTable isoDate ''close_date'' (loadedGrants [grantRolling, grantApril])) = ''asc'' \<and>
   filteredGrants (sortTable isoDate ''close_date'' (loadedGrants [grantRolling, grantApril]))
     = [grantRolling, grantApril]"
  by (simp add: compareGrants_def sortTable_def loadedGrants_def sortWith_def grantField_def
        nullToEmpty_def orElse_def jsMinus_def comparesAfter_def isoDate_rolling isoDate_april
        date_examples)

text \<open>
  Claim C4, amended. In the grants table, when a date column becomes the sort key and
  every date that is present parses, the filtered records are stable-sorted in ascending
  order of the parsed dates: the result is a permutation, ascending in the time value,
  and keeps the order of records of equal time value. An absent, null or empty date is
  compared as \<open>2099-12-31\<close>, so it sorts after every earlier date. An unparsable date
  is not compared as a maximum: any comparison with it yields NaN.
\<close>

theorem date_sort_by_parsed_date:
  assumes "column = ''close_date'' \<or> column = ''posted_date''"
    and "sortColumn s \<noteq> column"
    and "list_all (grantDateParses parse column) (filteredGrants s)"
  shows "sortDirection (sortTable parse column s) = ''asc''
    \<and> mset (filteredGrants (sortTable parse column s)) = mset (filteredGrants s)
    \<and> sorted (map (grantDateTime parse column) (filteredGrants (sortTable parse column s)))
    \<and> (\<forall>t. filter (\<lambda>g. grantDateTime parse column g = t) (filteredGrants (sortTable parse column s))
           = filter (\<lambda>g. grantDateTime parse column g = t) (filteredGrants s))
    \<and> (\<forall>g. \<not> truthy (grantField g column) \<longrightarrow> grantDateKey parse column g = parse ''2099-12-31'')
    \<and> (\<forall>a b direction.
          grantDateKey parse column a = None \<or> grantDateKey parse column b = None
          \<longrightarrow> compareGrants parse column direction a b = None)"
proof -
  have dir: "sortDirection (sortTable parse column s) = ''asc''"
    using assms(2) by (simp add: sortTable_def Let_def)
  have g: "filteredGrants (sortTable parse column s)
           = sort_key (grantDateTime parse column) (filteredGrants s)"
    using assms by (rule sortTable_date_sort_key)
  have nan: "\<forall>a b direction.
          grantDateKey parse column a = None \<or> grantDateKey parse column b = None
          \<longrightarrow> compareGrants parse column direction a b = None"
    using compareGrants_unparsable[OF assms(1)] by blast
  show ?thesis
    unfolding g
    using dir nan stable_sort_properties[of "grantDateTime parse column" "filteredGrants s"]
    by (simp add: grant_absent_date_key)
qed

theorem date_sort_by_parsed_date_witness:
  "list_all (grantDateParses isoDate ''close_date'') [grantNoDate, grantApril, grantMarch]
   \<and> \<not> truthy (grantField grantNoDate ''close_date'')
   \<and> grantDateKey isoDate ''close_date'' grantNoDate = isoDate ''2099-12-31''
   \<and> grantDateKey isoDate ''close_date'' grantRolling = None
   \<and> compareGrants isoDate ''close_date'' ''asc'' grantRolling grantApril = None
   \<and> sorted (map (grantDateTime isoDate ''close_date'')
        (filteredGrants (sortTable isoDate ''close_date'' (loadedGrants [grantNoDate, grantApril, grantMarch]))))
   \<and> filteredGrants (sortTable isoDate ''close_date'' (loadedGrants [grantNoDate, grantApril, grantMarch]))
       = [grantMarch, grantApril, grantNoDate]"
proof -
  have h1: "''close_date'' = ''close_date'' \<or> ''close_date'' = ''posted_date''"
    by simp
  have h2: "sortColumn (loadedGrants [grantNoDate, grantApril, grantMarch]) \<noteq> ''close_date''"
    by (simp add: loadedGrants_def)
  have h3: "list_all (grantDateParses isoDate ''close_date'')
              (filteredGrants (loadedGrants [grantNoDate, grantApril, grantMarch]))"
    by (simp add: loadedGrants_def grantDateParses_def date_example_keys)
  have a1: "\<not> truthy (grantField grantNoDate ''close_date'')"
    by (simp add: grantField_def date_examples)
  have a2: "grantDateKey isoDate ''close_date'' grantRolling = None"
    by (simp add: grantDateKey_def grantField_def nullToEmpty_def orElse_def date_examples
          isoDate_rolling)
  have e1: "filteredGrants (sortTable isoDate ''close_date'' (loadedGrants [grantNoDate, grantApril, grantMarch]))
       = [grantMarch, grantApril, grantNoDate]"
    unfolding sortTable_date_sort_key[OF h1 h2 h3]
    by (simp add: loadedGrants_def grantDateTime_def date_example_keys)
  note r = date_sort_by_parsed_date[OF h1 h2 h3]
  from r have s1: "sorted (map (grantDateTime isoDate ''close_date'')
        (filteredGrants (sortTable isoDate ''close_date'' (loadedGrants [grantNoDate, grantApril, grantMarch]))))"
    by blast
  from r a1 have k1: "grantDateKey isoDate ''close_date'' grantNoDate = isoDate ''2099-12-31''"
    by blast
  from r a2 have k2: "compareGrants isoDate ''close_date'' ''asc'' grantRolling grantApril = None"
    by blast
  show ?thesis
    using h3 a1 a2 s1 e1 k1 k2 by (simp add: loadedGrants_def)
qed


section \<open>Cross-reference from an award to its company\<close>

lemma findE_firmName:
  "list_all hasFirmName cs \<Longrightarrow>
   findE (firmNameIs companyName) cs = Inr (find (firmNameMatches companyName) cs)"
  by (induction cs)
     (auto simp: firmNameIs_def hasFirmName_def firmNameMatches_def split: js.splits)

lemma showCompanyFromName_not_found:
  assumes "list_all hasFirmName (companies (sbirData s))"
    and "\<not> list_ex (firmNameMatches companyName) (companies (sbirData s))"
  shows "showCompanyFromName companyName s
         = Inr (s\<lparr>sbirAlerts := sbirAlerts s @ [notFoundMessage companyName]\<rparr>)"
proof -
  have "find (firmNameMatches companyName) (companies (sbirData s)) = None"
    using assms(2) by (simp add: find_None_iff list_ex_iff)
  then show ?thesis
    using findE_firmName[OF assms(1), of companyName]
    by (simp add: showCompanyFromName_def)
qed

lemma showCompanyFromName_finds_the_match:
  assumes "list_all hasFirmName cs"
    and "filter (firmNameMatches companyName) cs = [c]"
  shows "findE (firmNameIs companyName) cs = Inr (Some c)"
proof -
  have "find (firmNameMatches companyName) cs = Some c"
    using assms(2)
  proof (induction cs)
    case Nil
    then show ?case by simp
  next
    case (Cons x xs)
    then show ?case by (auto split: if_splits)
  qed
  then show ?thesis
    using findE_firmName[OF assms(1), of companyName] by simp
qed

lemma showCompanyFromName_shows_match:
  assumes "list_all hasFirmName (companies (sbirData s))"
    and "filter (firmNameMatches companyName) (companies (sbirData s)) = [c]"
  shows "\<exists>s'. showCompanyFromName companyName s = Inr s'
           \<and> currentSubTab s' = Companies
           \<and> c \<in> set (companies (sbirFilteredData s'))
           \<and> sbirAlerts s' = sbirAlerts s
           \<and> sbirData s' = sbirData s"
proof -
  define s1 where "s1 = sbir_clearFilters Companies (switchSubTab Companies s)"
  define s2 where "s2 = s1\<lparr>sbirDom := (sbirDom s1)(''sbir-companies-search-input'' := companyName)\<rparr>"
  have found: "findE (firmNameIs companyName) (companies (sbirData s)) = Inr (Some c)"
    using assms by (rule showCompanyFromName_finds_the_match)
  then have res: "showCompanyFromName companyName s = Inr (sbir_performSearch Companies s2)"
    by (simp add: showCompanyFromName_def Let_def s1_def s2_def)
  have "c \<in> set (filter (firmNameMatches companyName) (companies (sbirData s)))"
    using assms(2) by simp
  then have cin: "c \<in> set (companies (sbirData s))" and m: "firmNameMatches companyName c"
    by simp_all
  from m obtain f where f: "co_firm_name c = Val f" "toLowerCase f = toLowerCase companyName"
    by (auto simp: firmNameMatches_def split: js.splits)
  have "str_includes (toLowerCase f) (trim (toLowerCase companyName))"
    unfolding f(2) by (rule str_includes_trim)
  then have hit: "companyMatchesSearch (trim (toLowerCase companyName)) c"
    by (simp add: companyMatchesSearch_def optIncludes_def f(1))
  have s1: "sbirData s1 = sbirData s" "sbirAlerts s1 = sbirAlerts s" "currentSubTab s1 = Companies"
    by (simp_all add: s1_def sbir_clearFilters_def switchSubTab_def Let_def)
  have empty: "sbirDom s1 (sbirFilterId Companies name) = []"
    if "name \<in> set (sbirFilterNames Companies)" for name
    using that by (auto simp: s1_def sbir_clearFilters_def Let_def clearedDom_def)
  have differ: "sbirFilterId Companies name \<noteq> ''sbir-companies-search-input''" for name
    by (simp add: sbirFilterId_def)
  have cleared: "sbirDom s2 (sbirFilterId Companies name) = []"
    if "name \<in> set (sbirFilterNames Companies)" for name
    using empty[OF that] differ[of name] by (simp add: s2_def)
  have ids: "''sbir-companies-filter-state'' = sbirFilterId Companies ''state''"
    "''sbir-companies-filter-funding'' = sbirFilterId Companies ''funding''"
    "''sbir-companies-filter-awards'' = sbirFilterId Companies ''awards''"
    "''sbir-companies-filter-employees'' = sbirFilterId Companies ''employees''"
    by (simp_all add: sbirFilterId_def)
  have nofilter: "applyCompanyFilters (sbirDom s2) data = data" for data
    unfolding applyCompanyFilters_def ids
    by (simp add: cleared filterIf_def)
  have typed: "sbirDom s2 (sbirSearchInputId Companies) = companyName"
    by (simp add: s2_def sbirSearchInputId_def)
  have s2: "sbirData s2 = sbirData s" "sbirAlerts s2 = sbirAlerts s" "currentSubTab s2 = Companies"
    by (simp_all add: s2_def s1)
  have shown: "companies (sbirFilteredData (sbir_performSearch Companies s2))
               = filter (companyMatchesSearch (trim (toLowerCase companyName))) (companies (sbirData s))"
    by (simp add: sbir_performSearch_def sbir_applyFilters_def Let_def nofilter typed s2)
  have rest: "currentSubTab (sbir_performSearch Companies s2) = Companies"
    "sbirAlerts (sbir_performSearch Companies s2) = sbirAlerts s"
    "sbirData (sbir_performSearch Companies s2) = sbirData s"
    by (simp_all add: sbir_performSearch_def sbir_applyFilters_def Let_def s2)
  show ?thesis
    using res shown rest cin hit by simp
qed

text \<open>
  Claim C6. The company of an award is looked up by case-insensitive equality of the
  name; with exactly one match that company is returned, and with no match "not found"
  is reported to the user and the view is unchanged. The lookup calls
  \<open>c.firm_name.toLowerCase()\<close> on every company it passes: with a company without a
  name in front, the lookup of a name that no company has throws instead of reporting.
  Where every company has a name, it reports and leaves the rest of the state as it was.
\<close>

theorem company_lookup_throws_on_nameless_company:
  "showCompanyFromName ''Nonexistent Corp'' (sbirWith [companyNoName, companyTechCorp]) = Inl TypeError
   \<and> showCompanyFromName ''Nonexistent Corp'' (sbirWith [companyTechCorp, companyBioMed])
       = Inr ((sbirWith [companyTechCorp, companyBioMed])
                \<lparr>sbirAlerts := [notFoundMessage ''Nonexistent Corp'']\<rparr>)"
  by (simp add: showCompanyFromName_def sbirWith_def loadedSbir_def emptyCompany_def firmNameIs_def
        companyNoName_def companyTechCorp_def companyBioMed_def toLowerCase_def lowerChar_def)


section \<open>CSV export of the filtered records\<close>

text \<open>
  \<open>exportResults\<close> of app.js wraps a field in quotes exactly when it holds a comma, a
  double quote or a newline, doubling the quotes inside; it reads the filtered records
  and not the page.
\<close>

lemma set_doubleQuotes: "set (doubleQuotes v) = set v"
  by (induction v) (auto simp: doubleQuotes_def)

lemma doubleQuotes_id: "dquote \<notin> set v \<Longrightarrow> doubleQuotes v = v"
  by (induction v) (auto simp: doubleQuotes_def)

lemma csvField_wraps:
  "csvField v = (if list_ex needsQuoting v then quoted (doubleQuotes v) else v)"
proof (cases "list_ex needsQuoting v")
  case True
  then show ?thesis
    by (auto simp: csvField_def Let_def str_includes_single set_doubleQuotes quoted_def
          list_ex_iff needsQuoting_def)
next
  case False
  then have "dquote \<notin> set v"
    by (auto simp: list_ex_iff needsQuoting_def)
  then have "doubleQuotes v = v"
    by (rule doubleQuotes_id)
  then show ?thesis
    using False
    by (auto simp: csvField_def Let_def str_includes_single list_ex_iff needsQuoting_def)
qed

lemma exportResults_ignores_page:
  "snd (exportResults (s\<lparr>currentPage := p\<rparr>)) = snd (exportResults s)"
  by (simp add: exportResults_def)

text \<open>
  Claim C7. Every exported field that holds a comma, a double quote or a newline is
  wrapped in double quotes with the quotes inside doubled. \<open>convertChallengersToCsv\<close>
  wraps every field but copies the text as it is: the title \<open>The "Big" Prize\<close> is
  written with its two quotes single, where \<open>exportResults\<close> of app.js doubles them.
\<close>

theorem challenge_csv_leaves_quotes_undoubled:
  "convertChallengersToCsv formatAmount formatDate [challengeQuoted] =
     Inr (''Title,Agency,Type,Status,Prize Amount,Deadline,Description'' @ [newline]
          @ quoted (''The '' @ [dquote] @ ''Big'' @ [dquote] @ '' Prize'') @ '',''
          @ quoted ''NASA'' @ '','' @ quoted [] @ '','' @ quoted ''Active'' @ '',''
          @ quoted (formatAmount (Val 1000)) @ '','' @ quoted (formatDate Undefined) @ '',''
          @ quoted ''Open call...'')
   \<and> csvField (''The '' @ [dquote] @ ''Big'' @ [dquote] @ '' Prize'')
       = quoted (''The '' @ [dquote, dquote] @ ''Big'' @ [dquote, dquote] @ '' Prize'')"
  by (simp add: convertChallengersToCsv_def challengeRow_def challengeQuoted_def emptyChallenge_def
        quoted_def csvField_def doubleQuotes_def dquote_def newline_def strOr_def)


section \<open>Distinct values for the filter options\<close>

lemma set_insertWith: "set (insertWith cmp x ys) = insert x (set ys)"
  by (induction ys) auto

lemma set_sortWith: "set (sortWith cmp xs) = set xs"
  by (induction xs) (simp_all add: sortWith_def set_insertWith)

lemma distinct_insertWith: "distinct (insertWith cmp x ys) = (x \<notin> set ys \<and> distinct ys)"
  by (induction ys) (auto simp: set_insertWith)

lemma distinct_sortWith: "distinct (sortWith cmp xs) = distinct xs"
  by (induction xs) (simp_all add: sortWith_def distinct_insertWith set_sortWith[unfolded sortWith_def])

lemma newSet_foldl:
  "set (foldl (\<lambda>acc x. if x \<in> set acc then acc else acc @ [x]) acc xs) = set acc \<union> set xs
   \<and> (distinct acc \<longrightarrow> distinct (foldl (\<lambda>acc x. if x \<in> set acc then acc else acc @ [x]) acc xs))"
  by (induction xs arbitrary: acc) auto

lemma set_newSet: "set (newSet xs) = set xs"
  using newSet_foldl[of "[]" xs] by (simp add: newSet_def)

lemma distinct_newSet: "distinct (newSet xs)"
  using newSet_foldl[of "[]" xs] by (simp add: newSet_def)

lemma set_defaultSort: "set (defaultSort xs) = set xs"
  by (auto simp: defaultSort_def set_sortWith)

lemma distinct_defaultSort: "distinct xs \<Longrightarrow> distinct (defaultSort xs)"
  by (auto simp: defaultSort_def set_sortWith distinct_sortWith)

lemma nofas_options_exclude_empty:
  "set (nofas_populateFilterOptions ns) = {a \<in> nf_agency ` set ns. truthyStr a}
   \<and> distinct (nofas_populateFilterOptions ns)"
  by (auto simp: nofas_populateFilterOptions_def set_defaultSort set_newSet
        distinct_defaultSort distinct_newSet)

lemma grants_options_keep_all:
  "set (fst (populateFilters gs)) = g_agency ` set gs"
  by (simp add: populateFilters_def set_defaultSort set_newSet)

text \<open>
  Claim C8. The distinct values that populate a filter option list are unique, sorted,
  and exclude null and empty values. \<open>populateFilters\<close> of app.js has no
  \<open>.filter(Boolean)\<close>: with a grant whose agency is the empty string the agency options
  hold the empty value, and grants without category and status give these lists the
  value \<open>undefined\<close>. \<open>populateFilterOptions\<close> of the NOFAs manager drops the empty value.
\<close>

theorem grant_options_keep_empty_value:
  "populateFilters [grantNasa, grantBlankAgency] = ([Val [], Val ''NASA''], [Undefined], [Undefined])
   \<and> nofas_populateFilterOptions [nofaEnergy\<lparr>nf_agency := Val []\<rparr>, nofaEnergy] = [Val ''Department of Energy'']"
  by (simp add: populateFilters_def defaultSort_def newSet_def sortWith_def defaultCompare_def
      comparesAfter_def grantNasa_def grantBlankAgency_def emptyGrant_def
      nofas_populateFilterOptions_def nofaEnergy_def emptyNofa_def)


section \<open>Challenges: the prize filter\<close>

text \<open>
  Claim C9. In the challenges collection a record whose \<open>prize_total\<close> is absent, null or 0
  satisfies every prize-range filter value: the prize predicate is skipped for it, so the
  filter callback gives the same answer under any prize filter as under no prize filter,
  and a record that the other controls keep is in the filtered list whatever the prize
  filter is.
\<close>

theorem prize_filter_skipped_without_prize:
  assumes "ch_prize_total c = Undefined \<or> ch_prize_total c = Null \<or> ch_prize_total c = Val 0"
  shows "chMatchesPrize prizeFilter c
    \<and> challengeKept searchTerm agencyFilter statusFilter typeFilter prizeFilter c
        = challengeKept searchTerm agencyFilter statusFilter typeFilter [] c
    \<and> (\<forall>cs ys.
          filterE (challengeKept searchTerm agencyFilter statusFilter typeFilter prizeFilter) cs = Inr ys
          \<and> c \<in> set cs
          \<and> challengeKept searchTerm agencyFilter statusFilter typeFilter [] c = Inr True
          \<longrightarrow> c \<in> set ys)"
proof -
  from assms have falsy: "\<not> truthyNum (ch_prize_total c)"
    by auto
  have "chMatchesPrize prizeFilter c" and "chMatchesPrize [] c"
    using falsy by (rule chMatchesPrize_falsy)+
  then have same: "chMatchesPrize prizeFilter c
    \<and> challengeKept searchTerm agencyFilter statusFilter typeFilter prizeFilter c
        = challengeKept searchTerm agencyFilter statusFilter typeFilter [] c"
    by (simp add: challengeKept_def split: sum.splits)
  have "c \<in> set ys"
    if "filterE (challengeKept searchTerm agencyFilter statusFilter typeFilter prizeFilter) cs = Inr ys"
      and "c \<in> set cs"
      and "challengeKept searchTerm agencyFilter statusFilter typeFilter [] c = Inr True"
    for cs ys
    using filterE_set[OF that(1)] that(2,3) same by simp
  then show ?thesis
    using same by blast
qed

theorem prize_filter_skipped_without_prize_witness:
  "ch_prize_total (emptyChallenge\<lparr>ch_title := Val ''Open Data'', ch_prize_total := Val 0\<rparr>) = Val 0
   \<and> chMatchesPrize ''over-500k'' (emptyChallenge\<lparr>ch_title := Val ''Open Data'', ch_prize_total := Val 0\<rparr>)
   \<and> challengeKept [] [] [] [] ''over-500k'' (emptyChallenge\<lparr>ch_title := Val ''Open Data'', ch_prize_total := Val 0\<rparr>) = Inr True
   \<and> filterE (challengeKept [] [] [] [] ''over-500k'')
         [emptyChallenge\<lparr>ch_title := Val ''Open Data'', ch_prize_total := Val 0\<rparr>]
       = Inr [emptyChallenge\<lparr>ch_title := Val ''Open Data'', ch_prize_total := Val 0\<rparr>]"
  using prize_filter_skipped_without_prize
          [of "emptyChallenge\<lparr>ch_title := Val ''Open Data'', ch_prize_total := Val 0\<rparr>"
              "''over-500k''" "[]" "[]" "[]" "[]"]
  by (simp add: emptyChallenge_def challengeKept_def chMatchesSearch_def chMatchesPrize_def)

end
